theory Spec2Isabelle
  imports Main "HOL-Library.Word" "HOL-Library.Monad_Syntax"
begin

unbundle bit_operations_syntax

section \<open>The MNIST reader of \<^verbatim>\<open>include/mnist/mnist_reader.hpp\<close>\<close>

text \<open>
  The embedding follows \<^verbatim>\<open>include/mnist/mnist_reader.hpp\<close>. A file is the list of
  its bytes; the file system is a function from paths to contents, \<open>None\<close> for a path
  that cannot be opened. The C++ functions return \<^verbatim>\<open>void\<close>, fill a container passed
  by reference and print diagnostics to \<^verbatim>\<open>std::cout\<close>: the model returns the
  container after the call together with the lines printed by the call. C++ does not
  check the index of a pointer dereference or of \<^verbatim>\<open>operator[]\<close>; an access outside
  the buffer or outside an image has no defined behaviour, and the model returns \<open>None\<close>
  for a run that performs one. \<^verbatim>\<open>std::size_t\<close> values are natural numbers;
  \<^verbatim>\<open>uint32_t\<close> values are 32-bit words, whose arithmetic wraps.
\<close>

subsection \<open>Bytes, words and the byte order of the host\<close>

type_synonym byte = "8 word"
type_synonym uint32 = "32 word"

datatype endian = LittleEndian | BigEndian

text \<open>
  \<^verbatim>\<open>*(header + position)\<close> with \<^verbatim>\<open>header = reinterpret_cast<uint32_t*>(buffer.get())\<close>
  loads the four bytes at \<open>4 * position\<close> the way the host lays out an integer:
  the byte at the lowest address is the least significant one on a little-endian host
  and the most significant one on a big-endian host. The function checks no bound: a load
  that is not inside the buffer is \<open>None\<close>.
\<close>

fun native_uint32 :: "endian \<Rightarrow> byte \<Rightarrow> byte \<Rightarrow> byte \<Rightarrow> byte \<Rightarrow> uint32" where
  "native_uint32 LittleEndian b0 b1 b2 b3 =
     ucast b0 OR push_bit 8 (ucast b1) OR push_bit 16 (ucast b2) OR push_bit 24 (ucast b3)"
| "native_uint32 BigEndian b0 b1 b2 b3 =
     ucast b3 OR push_bit 8 (ucast b2) OR push_bit 16 (ucast b1) OR push_bit 24 (ucast b0)"

definition deref_uint32 :: "endian \<Rightarrow> byte list \<Rightarrow> nat \<Rightarrow> uint32 option" where
  "deref_uint32 host buffer position =
     (if 4 * position + 4 \<le> length buffer
      then Some (native_uint32 host (buffer ! (4 * position)) (buffer ! (4 * position + 1))
                   (buffer ! (4 * position + 2)) (buffer ! (4 * position + 3)))
      else None)"

text \<open>
  \<^verbatim>\<open>return (value << 24) | ((value << 8) & 0x00FF0000) | ((value >> 8) & 0X0000FF00) | (value >> 24);\<close>
\<close>

definition read_header :: "endian \<Rightarrow> byte list \<Rightarrow> nat \<Rightarrow> uint32 option" where
  "read_header host buffer position =
     do {
       v \<leftarrow> deref_uint32 host buffer position;
       Some (push_bit 24 v OR (push_bit 8 v AND 0x00FF0000) OR (drop_bit 8 v AND 0x0000FF00)
             OR drop_bit 24 v)
     }"

subsection \<open>The image-file decoder\<close>

type_synonym filesystem = "string \<Rightarrow> byte list option"

text \<open>
  The inner loop, \<^verbatim>\<open>for(size_t j = 0; j < rows * columns; ++j)\<close>, with
  \<^verbatim>\<open>auto pixel = *image_buffer++; images[i][j] = static_cast<...>(pixel);\<close>.
  \<open>image_buffer\<close> is the offset of the read pointer in the buffer and \<open>n\<close> the value
  of \<^verbatim>\<open>rows * columns\<close>.
\<close>

function copy_pixels ::
  "(byte \<Rightarrow> 'p) \<Rightarrow> byte list \<Rightarrow> nat \<Rightarrow> nat \<Rightarrow> nat \<Rightarrow> 'p list list \<times> nat \<Rightarrow> ('p list list \<times> nat) option"
where
  "copy_pixels cast buffer n i j (images, image_buffer) =
     (if j < n then
        (if image_buffer < length buffer \<and> i < length images \<and> j < length (images ! i)
         then copy_pixels cast buffer n i (Suc j)
                (images[i := (images ! i)[j := cast (buffer ! image_buffer)]], Suc image_buffer)
         else None)
      else Some (images, image_buffer))"
  by pat_completeness auto
termination
  by (relation "measure (\<lambda>(cast, buffer, n, i, j, st). n - j)") auto

text \<open>
  The outer loop, \<^verbatim>\<open>for(size_t i = 0; i < count; ++i)\<close>, which starts with
  \<^verbatim>\<open>images.push_back(func());\<close> and then writes through \<^verbatim>\<open>images[i]\<close>.
\<close>

function read_images ::
  "(byte \<Rightarrow> 'p) \<Rightarrow> (unit \<Rightarrow> 'p list) \<Rightarrow> byte list \<Rightarrow> nat \<Rightarrow> nat \<Rightarrow> nat \<Rightarrow> 'p list list \<times> nat
     \<Rightarrow> ('p list list \<times> nat) option"
where
  "read_images cast func buffer count n i (images, image_buffer) =
     (if i < count then
        (case copy_pixels cast buffer n i 0 (images @ [func ()], image_buffer) of
           None \<Rightarrow> None
         | Some st \<Rightarrow> read_images cast func buffer count n (Suc i) st)
      else Some (images, image_buffer))"
  by pat_completeness auto
termination
  by (relation "measure (\<lambda>(cast, func, buffer, count, n, i, st). count - i)") auto

definition error_opening :: string where
  "error_opening = ''Error opening file''"

definition invalid_magic :: string where
  "invalid_magic = ''Invalid magic number, probably not a MNIST file''"

definition not_large_enough :: string where
  "not_large_enough = ''The file is not large enough to hold all the data, probably corrupted''"

text \<open>
  \<^verbatim>\<open>read_mnist_image_file(images, path, limit, func)\<close>. The comparison
  \<^verbatim>\<open>size < count * rows * columns + 16\<close> has a 32-bit unsigned right-hand side, so
  the product and the sum wrap modulo \<open>2 ^ 32\<close> before they meet the file size.
  \<^verbatim>\<open>images.reserve(count)\<close> changes no element.
\<close>

definition read_mnist_image_file ::
  "endian \<Rightarrow> filesystem \<Rightarrow> (byte \<Rightarrow> 'p) \<Rightarrow> 'p list list \<Rightarrow> string \<Rightarrow> nat \<Rightarrow> (unit \<Rightarrow> 'p list)
     \<Rightarrow> ('p list list \<times> string list) option"
where
  "read_mnist_image_file host fs cast images path limit func =
     (case fs path of
        None \<Rightarrow> Some (images, [error_opening])
      | Some buffer \<Rightarrow>
          do {
            magic \<leftarrow> read_header host buffer 0;
            if magic \<noteq> 0x803 then Some (images, [invalid_magic])
            else do {
              count \<leftarrow> read_header host buffer 1;
              rows \<leftarrow> read_header host buffer 2;
              columns \<leftarrow> read_header host buffer 3;
              if length buffer < unat (count * rows * columns + 16)
              then Some (images, [not_large_enough])
              else do {
                let count = (if 0 < limit \<and> limit < unat count then word_of_nat limit else count);
                (images', image_buffer) \<leftarrow>
                  read_images cast func buffer (unat count) (unat (rows * columns)) 0 (images, 16);
                Some (images', [])
              }
            }
          })"

subsection \<open>The label-file decoder\<close>

text \<open>\<^verbatim>\<open>std::vector::resize\<close>: cut, or pad with value-initialised elements.\<close>

definition vector_resize :: "'a \<Rightarrow> nat \<Rightarrow> 'a list \<Rightarrow> 'a list" where
  "vector_resize dflt new_size xs = take new_size xs @ replicate (new_size - length xs) dflt"

text \<open>
  \<^verbatim>\<open>for(size_t i = 0; i < count; ++i){ auto label = *label_buffer++; labels[i] = static_cast<Label>(label); }\<close>
\<close>

function copy_labels ::
  "(byte \<Rightarrow> 'l) \<Rightarrow> byte list \<Rightarrow> nat \<Rightarrow> nat \<Rightarrow> 'l list \<times> nat \<Rightarrow> ('l list \<times> nat) option"
where
  "copy_labels cast buffer count i (labels, label_buffer) =
     (if i < count then
        (if label_buffer < length buffer \<and> i < length labels
         then copy_labels cast buffer count (Suc i)
                (labels[i := cast (buffer ! label_buffer)], Suc label_buffer)
         else None)
      else Some (labels, label_buffer))"
  by pat_completeness auto
termination
  by (relation "measure (\<lambda>(cast, buffer, count, i, st). count - i)") auto

definition read_mnist_label_file ::
  "endian \<Rightarrow> filesystem \<Rightarrow> (byte \<Rightarrow> 'l::zero) \<Rightarrow> 'l list \<Rightarrow> string \<Rightarrow> nat
     \<Rightarrow> ('l list \<times> string list) option"
where
  "read_mnist_label_file host fs cast labels path limit =
     (case fs path of
        None \<Rightarrow> Some (labels, [error_opening])
      | Some buffer \<Rightarrow>
          do {
            magic \<leftarrow> read_header host buffer 0;
            if magic \<noteq> 0x801 then Some (labels, [invalid_magic])
            else do {
              count \<leftarrow> read_header host buffer 1;
              if length buffer < unat (count + 8)
              then Some (labels, [not_large_enough])
              else do {
                let count = (if 0 < limit \<and> limit < unat count then word_of_nat limit else count);
                (labels', label_buffer) \<leftarrow>
                  copy_labels cast buffer (unat count) 0 (vector_resize 0 (unat count) labels, 8);
                Some (labels', [])
              }
            }
          })"

subsection \<open>The label-file decoder of \<^verbatim>\<open>src/unnamed/part_001\<close>\<close>

text \<open>
  \<^verbatim>\<open>src/unnamed/part_001\<close> holds another \<^verbatim>\<open>read_mnist_label_file(path, limit)\<close>. It
  returns the container instead of filling the caller's (\<^verbatim>\<open>return {};\<close> after a
  diagnostic), and it constructs the container, \<^verbatim>\<open>Container<Label> labels(count);\<close>,
  before it applies the limit to \<^verbatim>\<open>count\<close>. Header reader, checks and copy loop are those
  of the header above.
\<close>

definition read_mnist_label_file_part_001 ::
  "endian \<Rightarrow> filesystem \<Rightarrow> (byte \<Rightarrow> 'l::zero) \<Rightarrow> string \<Rightarrow> nat \<Rightarrow> ('l list \<times> string list) option"
where
  "read_mnist_label_file_part_001 host fs cast path limit =
     (case fs path of
        None \<Rightarrow> Some ([], [error_opening])
      | Some buffer \<Rightarrow>
          do {
            magic \<leftarrow> read_header host buffer 0;
            if magic \<noteq> 0x801 then Some ([], [invalid_magic])
            else do {
              count \<leftarrow> read_header host buffer 1;
              if length buffer < unat (count + 8)
              then Some ([], [not_large_enough])
              else do {
                let labels = replicate (unat count) 0;
                let count = (if 0 < limit \<and> limit < unat count then word_of_nat limit else count);
                (labels', label_buffer) \<leftarrow> copy_labels cast buffer (unat count) 0 (labels, 8);
                Some (labels', [])
              }
            }
          })"

subsection \<open>The dataset and its assembly\<close>

record ('p, 'l) MNIST_dataset =
  training_images :: "'p list list"
  test_images :: "'p list list"
  training_labels :: "'l list"
  test_labels :: "'l list"

definition resize_training :: "nat \<Rightarrow> ('p, 'l::zero) MNIST_dataset \<Rightarrow> ('p, 'l) MNIST_dataset" where
  "resize_training new_size dataset =
     (if length (training_images dataset) > new_size
      then dataset\<lparr>training_images := vector_resize [] new_size (training_images dataset),
                   training_labels := vector_resize 0 new_size (training_labels dataset)\<rparr>
      else dataset)"

definition resize_test :: "nat \<Rightarrow> ('p, 'l::zero) MNIST_dataset \<Rightarrow> ('p, 'l) MNIST_dataset" where
  "resize_test new_size dataset =
     (if length (test_images dataset) > new_size
      then dataset\<lparr>test_images := vector_resize [] new_size (test_images dataset),
                   test_labels := vector_resize 0 new_size (test_labels dataset)\<rparr>
      else dataset)"

definition read_training_images ::
  "endian \<Rightarrow> filesystem \<Rightarrow> (byte \<Rightarrow> 'p) \<Rightarrow> nat \<Rightarrow> (unit \<Rightarrow> 'p list) \<Rightarrow> ('p list list \<times> string list) option"
where
  "read_training_images host fs cast limit func =
     read_mnist_image_file host fs cast [] ''mnist/train-images-idx3-ubyte'' limit func"

definition read_test_images ::
  "endian \<Rightarrow> filesystem \<Rightarrow> (byte \<Rightarrow> 'p) \<Rightarrow> nat \<Rightarrow> (unit \<Rightarrow> 'p list) \<Rightarrow> ('p list list \<times> string list) option"
where
  "read_test_images host fs cast limit func =
     read_mnist_image_file host fs cast [] ''mnist/t10k-images-idx3-ubyte'' limit func"

definition read_training_labels ::
  "endian \<Rightarrow> filesystem \<Rightarrow> (byte \<Rightarrow> 'l::zero) \<Rightarrow> nat \<Rightarrow> ('l list \<times> string list) option"
where
  "read_training_labels host fs cast limit =
     read_mnist_label_file host fs cast [] ''mnist/train-labels-idx1-ubyte'' limit"

definition read_test_labels ::
  "endian \<Rightarrow> filesystem \<Rightarrow> (byte \<Rightarrow> 'l::zero) \<Rightarrow> nat \<Rightarrow> ('l list \<times> string list) option"
where
  "read_test_labels host fs cast limit =
     read_mnist_label_file host fs cast [] ''mnist/t10k-labels-idx1-ubyte'' limit"

text \<open>
  \<^verbatim>\<open>read_dataset_direct(training_limit, test_limit)\<close>, whose functor is
  \<^verbatim>\<open>[]{ return Image(1 * 28 * 28); }\<close>: a vector of 784 value-initialised pixels.
\<close>

definition read_dataset_direct ::
  "endian \<Rightarrow> filesystem \<Rightarrow> (byte \<Rightarrow> 'p::zero) \<Rightarrow> (byte \<Rightarrow> 'l::zero) \<Rightarrow> nat \<Rightarrow> nat
     \<Rightarrow> (('p, 'l) MNIST_dataset \<times> string list) option"
where
  "read_dataset_direct host fs pixel_cast label_cast training_limit test_limit =
     do {
       (tr_images, out1) \<leftarrow>
         read_training_images host fs pixel_cast training_limit (\<lambda>_. replicate (1 * 28 * 28) 0);
       (tr_labels, out2) \<leftarrow> read_training_labels host fs label_cast training_limit;
       (te_images, out3) \<leftarrow>
         read_test_images host fs pixel_cast test_limit (\<lambda>_. replicate (1 * 28 * 28) 0);
       (te_labels, out4) \<leftarrow> read_test_labels host fs label_cast test_limit;
       Some (\<lparr>training_images = tr_images, test_images = te_images,
               training_labels = tr_labels, test_labels = te_labels\<rparr>,
             out1 @ out2 @ out3 @ out4)
     }"

subsection \<open>Vocabulary of the properties\<close>

text \<open>The expression returned by \<^verbatim>\<open>read_header\<close>, named so that lemmas can speak of it.\<close>

definition byte_reverse :: "uint32 \<Rightarrow> uint32" where
  "byte_reverse v = push_bit 24 v OR (push_bit 8 v AND 0x00FF0000) OR (drop_bit 8 v AND 0x0000FF00) OR drop_bit 24 v"


text \<open>
  A client may call \<^verbatim>\<open>resize_training\<close> and \<^verbatim>\<open>resize_test\<close> any number of times,
  in any order; \<open>sizes_agree\<close> is the invariant of the dataset.
\<close>

datatype resize_call = Resize_training nat | Resize_test nat

fun resize_calls :: "resize_call list \<Rightarrow> ('p, 'l::zero) MNIST_dataset \<Rightarrow> ('p, 'l) MNIST_dataset" where
  "resize_calls [] dataset = dataset"
| "resize_calls (Resize_training new_size # calls) dataset = resize_calls calls (resize_training new_size dataset)"
| "resize_calls (Resize_test new_size # calls) dataset = resize_calls calls (resize_test new_size dataset)"

definition sizes_agree :: "('p, 'l) MNIST_dataset \<Rightarrow> bool" where
  "sizes_agree dataset \<longleftrightarrow>
     length (training_images dataset) = length (training_labels dataset) \<and>
     length (test_images dataset) = length (test_labels dataset)"

text \<open>
  Concrete inputs: the two synthetic files of the end-to-end test; an image file of 16
  bytes whose header declares 65536 images of 65536 rows and 1 column; a label file of two
  labels; an image file that declares no image; the synthetic files cut one byte short;
  file systems that hold them; a small dataset whose training split has fewer labels
  than images; a label file whose header words are stored least significant byte first;
  and an image file of one image of 1 row and 785 columns, with a label file of one label.
\<close>

definition synthetic_image_file :: "byte list" where
  "synthetic_image_file = [0, 0, 8, 3,  0, 0, 0, 2,  0, 0, 0, 2,  0, 0, 0, 2,  1, 2, 3, 4,  5, 6, 7, 8]"

definition synthetic_label_file :: "byte list" where
  "synthetic_label_file = [0, 0, 8, 1,  0, 0, 0, 3,  7, 2, 9]"

definition overflowing_image_file :: "byte list" where
  "overflowing_image_file = [0, 0, 8, 3,  0, 1, 0, 0,  0, 1, 0, 0,  0, 0, 0, 1]"

definition synthetic_fs :: filesystem where
  "synthetic_fs path =
     (if path = ''images'' then Some synthetic_image_file
      else if path = ''labels'' then Some synthetic_label_file
      else None)"

definition two_label_file :: "byte list" where
  "two_label_file = [0, 0, 8, 1,  0, 0, 0, 2,  7, 2]"

definition mnist_fs :: filesystem where
  "mnist_fs path =
     (if path = ''mnist/train-images-idx3-ubyte'' then Some synthetic_image_file
      else if path = ''mnist/train-labels-idx1-ubyte'' then Some two_label_file
      else if path = ''mnist/t10k-images-idx3-ubyte'' then Some synthetic_image_file
      else if path = ''mnist/t10k-labels-idx1-ubyte'' then Some two_label_file
      else None)"

definition small_dataset :: "(byte, byte) MNIST_dataset" where
  "small_dataset =
     \<lparr>training_images = [[1], [2], [3]], test_images = [[4], [5]],
      training_labels = [1], test_labels = [4, 5]\<rparr>"

definition empty_image_file :: "byte list" where
  "empty_image_file = [0, 0, 8, 3,  0, 0, 0, 0,  0, 0, 0, 28,  0, 0, 0, 28]"

definition truncated_image_file :: "byte list" where
  "truncated_image_file = [0, 0, 8, 3,  0, 0, 0, 2,  0, 0, 0, 2,  0, 0, 0, 2,  1, 2, 3, 4,  5, 6, 7]"

definition truncated_label_file :: "byte list" where
  "truncated_label_file = [0, 0, 8, 1,  0, 0, 0, 3,  7, 2]"

definition byte_swapped_label_file :: "byte list" where
  "byte_swapped_label_file = [1, 8, 0, 0,  2, 0, 0, 0,  7, 2]"

definition wide_image_file :: "byte list" where
  "wide_image_file = [0, 0, 8, 3,  0, 0, 0, 1,  0, 0, 0, 1,  0, 0, 3, 17] @ replicate 785 0"

definition one_label_file :: "byte list" where
  "one_label_file = [0, 0, 8, 1,  0, 0, 0, 1,  7]"

definition wide_fs :: filesystem where
  "wide_fs path =
     (if path = ''mnist/train-images-idx3-ubyte'' then Some wide_image_file
      else if path = ''mnist/train-labels-idx1-ubyte'' then Some one_label_file
      else if path = ''mnist/t10k-images-idx3-ubyte'' then Some wide_image_file
      else if path = ''mnist/t10k-labels-idx1-ubyte'' then Some one_label_file
      else None)"

declare copy_pixels.simps [simp del] read_images.simps [simp del] copy_labels.simps [simp del]
declare native_uint32.simps [simp del]

section \<open>Auxiliary facts\<close>

subsection \<open>Words made of four bytes\<close>

lemma mask_FF0000: "(0x00FF0000 :: uint32) = push_bit 16 (mask 8)"
  by (simp add: mask_eq_exp_minus_1)

lemma mask_FF00: "(0x0000FF00 :: uint32) = push_bit 8 (mask 8)"
  by (simp add: mask_eq_exp_minus_1)

lemma byte_reverse_byte0: "(ucast (byte_reverse v) :: byte) = ucast (drop_bit 24 v)"
  unfolding byte_reverse_def mask_FF0000 mask_FF00
  by (rule bit_word_eqI) (auto simp add: bit_simps)

lemma byte_reverse_byte1: "(ucast (drop_bit 8 (byte_reverse v)) :: byte) = ucast (drop_bit 16 v)"
  unfolding byte_reverse_def mask_FF0000 mask_FF00
  by (rule bit_word_eqI) (auto simp add: bit_simps)

lemma byte_reverse_byte2: "(ucast (drop_bit 16 (byte_reverse v)) :: byte) = ucast (drop_bit 8 v)"
  unfolding byte_reverse_def mask_FF0000 mask_FF00
  by (rule bit_word_eqI) (auto simp add: bit_simps)

lemma byte_reverse_byte3: "(ucast (drop_bit 24 (byte_reverse v)) :: byte) = ucast v"
  unfolding byte_reverse_def mask_FF0000 mask_FF00
  by (rule bit_word_eqI) (auto simp add: bit_simps)

lemma byte_reverse_little:
  "byte_reverse (native_uint32 LittleEndian b0 b1 b2 b3) = native_uint32 BigEndian b0 b1 b2 b3"
  (is "?l = ?r")
proof (rule bit_word_eqI)
  fix n
  assume "n < LENGTH(32)"
  then consider "n < 8" | "8 \<le> n" "n < 16" | "16 \<le> n" "n < 24" | "24 \<le> n" "n < 32"
    by fastforce
  then show "bit ?l n = bit ?r n"
    by cases (auto simp add: byte_reverse_def native_uint32.simps mask_FF0000 mask_FF00 bit_simps
          dest: bit_imp_le_length)
qed

lemma byte_reverse_big:
  "byte_reverse (native_uint32 BigEndian b0 b1 b2 b3) = native_uint32 LittleEndian b0 b1 b2 b3"
  (is "?l = ?r")
proof (rule bit_word_eqI)
  fix n
  assume "n < LENGTH(32)"
  then consider "n < 8" | "8 \<le> n" "n < 16" | "16 \<le> n" "n < 24" | "24 \<le> n" "n < 32"
    by fastforce
  then show "bit ?l n = bit ?r n"
    by cases (auto simp add: byte_reverse_def native_uint32.simps mask_FF0000 mask_FF00 bit_simps
          dest: bit_imp_le_length)
qed

lemma read_header_eq:
  "read_header host buffer position = map_option byte_reverse (deref_uint32 host buffer position)"
  by (cases "deref_uint32 host buffer position") (simp_all add: read_header_def byte_reverse_def)

lemma unat_shifted_byte:
  fixes b :: byte
  assumes "n \<le> 24"
  shows "unat (push_bit n (ucast b :: uint32)) = unat b * 2 ^ n"
proof -
  have "unat b < 2 ^ 8" using unsigned_less [of b] by simp
  then have "unat b * 2 ^ n < 2 ^ 8 * 2 ^ n" by simp
  also have "\<dots> = (2::nat) ^ (8 + n)" by (simp add: power_add)
  also have "\<dots> \<le> 2 ^ 32" using assms by (intro power_increasing) simp_all
  finally have lt: "unat b * 2 ^ n < 2 ^ 32" .
  have "unat (push_bit n (ucast b :: uint32)) = take_bit 32 (push_bit n (unat b))"
  proof -
    have "take_bit 32 (unat b) = unat b"
      using \<open>unat b < 2 ^ 8\<close> by (simp add: take_bit_nat_eq_self_iff)
    then show ?thesis by (simp add: unsigned_push_bit_eq unsigned_ucast_eq)
  qed
  also have "\<dots> = unat b * 2 ^ n"
    using lt by (simp add: push_bit_eq_mult take_bit_nat_eq_self_iff)
  finally show ?thesis .
qed

lemma or_bytes_eq_add:
  fixes b0 b1 b2 b3 :: byte
  shows "(ucast b3 OR push_bit 8 (ucast b2) OR push_bit 16 (ucast b1) OR push_bit 24 (ucast b0) :: uint32)
       = ucast b3 + (push_bit 8 (ucast b2) + (push_bit 16 (ucast b1) + push_bit 24 (ucast b0)))"
proof -
  have 1: "(push_bit 16 (ucast b1) + push_bit 24 (ucast b0) :: uint32) = push_bit 16 (ucast b1) OR push_bit 24 (ucast b0)"
    by (rule disjunctive_add) (auto simp add: bit_simps dest: bit_imp_le_length)
  have 2: "(push_bit 8 (ucast b2) + (push_bit 16 (ucast b1) OR push_bit 24 (ucast b0)) :: uint32)
      = push_bit 8 (ucast b2) OR (push_bit 16 (ucast b1) OR push_bit 24 (ucast b0))"
    by (rule disjunctive_add) (auto simp add: bit_simps dest: bit_imp_le_length)
  have 3: "(ucast b3 + (push_bit 8 (ucast b2) OR (push_bit 16 (ucast b1) OR push_bit 24 (ucast b0))) :: uint32)
      = ucast b3 OR (push_bit 8 (ucast b2) OR (push_bit 16 (ucast b1) OR push_bit 24 (ucast b0)))"
    by (rule disjunctive_add) (auto simp add: bit_simps dest: bit_imp_le_length)
  show ?thesis by (simp only: 1 2 3 or.assoc)
qed

lemma unat_or_bytes:
  fixes b0 b1 b2 b3 :: byte
  shows "unat (ucast b3 OR push_bit 8 (ucast b2) OR push_bit 16 (ucast b1) OR push_bit 24 (ucast b0) :: uint32)
       = unat b0 * 2 ^ 24 + unat b1 * 2 ^ 16 + unat b2 * 2 ^ 8 + unat b3"
proof -
  have b: "unat b0 < 256" "unat b1 < 256" "unat b2 < 256" "unat b3 < 256"
    using unsigned_less [of b0] unsigned_less [of b1] unsigned_less [of b2] unsigned_less [of b3] by simp_all
  have u3: "unat (ucast b3 :: uint32) = unat b3" using unat_shifted_byte [of 0 b3] by simp
  have "unat (ucast b3 + (push_bit 8 (ucast b2) + (push_bit 16 (ucast b1) + push_bit 24 (ucast b0))) :: uint32)
      = (unat b3 + (unat b2 * 2 ^ 8 + (unat b1 * 2 ^ 16 + unat b0 * 2 ^ 24))) mod 2 ^ 32"
    by (simp add: unat_word_ariths unat_shifted_byte u3 mod_simps)
  also have "\<dots> = unat b3 + (unat b2 * 2 ^ 8 + (unat b1 * 2 ^ 16 + unat b0 * 2 ^ 24))"
    using b by simp
  finally show ?thesis by (simp add: or_bytes_eq_add)
qed

subsection \<open>What \<^verbatim>\<open>read_header\<close> returns\<close>

lemma read_header_value:
  assumes "(position + 1) * 4 \<le> length buffer"
  shows "read_header host buffer position =
     Some (byte_reverse (native_uint32 host (buffer ! (4 * position)) (buffer ! (4 * position + 1))
                           (buffer ! (4 * position + 2)) (buffer ! (4 * position + 3))))"
  using assms by (simp add: read_header_eq deref_uint32_def)

lemma unat_native_big:
  "unat (native_uint32 BigEndian b0 b1 b2 b3) = unat b0 * 2 ^ 24 + unat b1 * 2 ^ 16 + unat b2 * 2 ^ 8 + unat b3"
  by (simp only: native_uint32.simps unat_or_bytes)

lemma unat_native_little:
  "unat (native_uint32 LittleEndian b0 b1 b2 b3) = unat b3 * 2 ^ 24 + unat b2 * 2 ^ 16 + unat b1 * 2 ^ 8 + unat b0"
  by (simp only: native_uint32.simps unat_or_bytes)

lemma read_header_little:
  assumes "(position + 1) * 4 \<le> length buffer"
  shows "\<exists>w. read_header LittleEndian buffer position = Some w \<and>
     unat w = unat (buffer ! (4 * position)) * 2 ^ 24 + unat (buffer ! (4 * position + 1)) * 2 ^ 16
            + unat (buffer ! (4 * position + 2)) * 2 ^ 8 + unat (buffer ! (4 * position + 3))"
  unfolding read_header_value [OF assms] byte_reverse_little
  by (rule exI, rule conjI, rule refl, rule unat_native_big)

lemma read_magic_little:
  assumes "4 \<le> length buffer"
  shows "\<exists>magic. read_header LittleEndian buffer 0 = Some magic \<and>
     unat magic = unat (buffer ! 0) * 2 ^ 24 + unat (buffer ! 1) * 2 ^ 16 + unat (buffer ! 2) * 2 ^ 8
                  + unat (buffer ! 3)"
proof -
  have "read_header LittleEndian buffer 0 =
      Some (native_uint32 BigEndian (buffer ! 0) (buffer ! 1) (buffer ! 2) (buffer ! 3))"
    using assms by (simp add: read_header_eq deref_uint32_def byte_reverse_little numeral_2_eq_2)
  then show ?thesis
    by (intro exI [of _ "native_uint32 BigEndian (buffer ! 0) (buffer ! 1) (buffer ! 2) (buffer ! 3)"]
          conjI unat_native_big)
qed

subsection \<open>The copy loops\<close>

lemma copy_labels_run:
  "i \<le> count \<Longrightarrow> length labels = count \<Longrightarrow> p + (count - i) \<le> length buffer \<Longrightarrow>
   copy_labels cast buffer count i (labels, p) =
     Some (take i labels @ map cast (take (count - i) (drop p buffer)), p + (count - i))"
proof (induction cast buffer count i "(labels, p)" arbitrary: labels p rule: copy_labels.induct)
  case (1 cast buffer count i labels p)
  show ?case
  proof (cases "i < count")
    case False
    with "1.prems" show ?thesis by (subst copy_labels.simps) simp
  next
    case True
    with "1.prems" have inb: "p < length buffer" "i < length labels" by simp_all
    let ?labels = "labels[i := cast (buffer ! p)]"
    have step: "copy_labels cast buffer count i (labels, p) = copy_labels cast buffer count (Suc i) (?labels, Suc p)"
      using True inb by (subst copy_labels.simps) simp
    have ih: "copy_labels cast buffer count (Suc i) (?labels, Suc p) =
        Some (take (Suc i) ?labels @ map cast (take (count - Suc i) (drop (Suc p) buffer)), Suc p + (count - Suc i))"
      using True inb "1.prems" by (intro "1.hyps") simp_all
    have t: "take (Suc i) ?labels = take i labels @ [cast (buffer ! p)]"
      using inb by (simp add: take_Suc_conv_app_nth)
    have d: "take (count - i) (drop p buffer) = buffer ! p # take (count - Suc i) (drop (Suc p) buffer)"
    proof -
      have "drop p buffer = buffer ! p # drop (Suc p) buffer"
        using inb by (simp add: Cons_nth_drop_Suc)
      moreover have "count - i = Suc (count - Suc i)" using True by simp
      ultimately show ?thesis by simp
    qed
    show ?thesis using True by (simp only: step ih t d) simp
  qed
qed

lemma copy_pixels_run:
  "j \<le> n \<Longrightarrow> i < length images \<Longrightarrow> n \<le> length (images ! i) \<Longrightarrow> p + (n - j) \<le> length buffer \<Longrightarrow>
   copy_pixels cast buffer n i j (images, p) =
     Some (images[i := take j (images ! i) @ map cast (take (n - j) (drop p buffer)) @ drop n (images ! i)],
           p + (n - j))"
proof (induction cast buffer n i j "(images, p)" arbitrary: images p rule: copy_pixels.induct)
  case (1 cast buffer n i j images p)
  show ?case
  proof (cases "j < n")
    case False
    with "1.prems" have "j = n" by simp
    then show ?thesis by (subst copy_pixels.simps) simp
  next
    case True
    with "1.prems" have inb: "p < length buffer" "i < length images" "j < length (images ! i)" by simp_all
    let ?img = "(images ! i)[j := cast (buffer ! p)]"
    let ?images = "images[i := ?img]"
    have step: "copy_pixels cast buffer n i j (images, p) = copy_pixels cast buffer n i (Suc j) (?images, Suc p)"
      using True inb by (subst copy_pixels.simps) simp
    have ih: "copy_pixels cast buffer n i (Suc j) (?images, Suc p) =
        Some (?images[i := take (Suc j) (?images ! i) @ map cast (take (n - Suc j) (drop (Suc p) buffer)) @ drop n (?images ! i)],
              Suc p + (n - Suc j))"
      using True inb "1.prems" by (intro "1.hyps") simp_all
    have t: "take (Suc j) ?img = take j (images ! i) @ [cast (buffer ! p)]"
      using inb by (simp add: take_Suc_conv_app_nth)
    have dn: "drop n ?img = drop n (images ! i)"
      using True by simp
    have d: "take (n - j) (drop p buffer) = buffer ! p # take (n - Suc j) (drop (Suc p) buffer)"
    proof -
      have "drop p buffer = buffer ! p # drop (Suc p) buffer"
        using inb by (simp add: Cons_nth_drop_Suc)
      moreover have "n - j = Suc (n - Suc j)" using True by simp
      ultimately show ?thesis by simp
    qed
    have sel: "?images ! i = ?img" using inb by simp
    show ?thesis using True by (simp only: step ih sel t dn d) simp
  qed
qed

lemma read_images_run:
  "i \<le> count \<Longrightarrow> length images = i \<Longrightarrow> n \<le> length (func ()) \<Longrightarrow> p + (count - i) * n \<le> length buffer \<Longrightarrow>
   read_images cast func buffer count n i (images, p) =
     Some (images @ map (\<lambda>k. map cast (take n (drop (p + k * n) buffer)) @ drop n (func ())) [0..<count - i],
           p + (count - i) * n)"
proof (induction cast func buffer count n i "(images, p)" arbitrary: images p rule: read_images.induct)
  case (1 cast func buffer count n i images p)
  show ?case
  proof (cases "i < count")
    case False
    with "1.prems" show ?thesis by (subst read_images.simps) simp
  next
    case True
    let ?new = "map cast (take n (drop p buffer)) @ drop n (func ())"
    have m: "count - i = Suc (count - Suc i)" using True by simp
    have fit: "p + n \<le> length buffer"
      using "1.prems"(4) by (simp add: m)
    have inner: "copy_pixels cast buffer n i 0 (images @ [func ()], p) = Some (images @ [?new], p + n)"
    proof -
      have "copy_pixels cast buffer n i 0 (images @ [func ()], p) =
          Some ((images @ [func ()])[i := take 0 ((images @ [func ()]) ! i) @ map cast (take (n - 0) (drop p buffer))
                   @ drop n ((images @ [func ()]) ! i)], p + (n - 0))"
        using "1.prems" fit by (intro copy_pixels_run) (simp_all add: nth_append)
      then show ?thesis using "1.prems"(2) by (simp add: nth_append list_update_append)
    qed
    have ih: "read_images cast func buffer count n (Suc i) (images @ [?new], p + n) =
        Some ((images @ [?new]) @ map (\<lambda>k. map cast (take n (drop (p + n + k * n) buffer)) @ drop n (func ())) [0..<count - Suc i],
              p + n + (count - Suc i) * n)"
      using True "1.prems" by (intro "1.hyps"(1)[OF True inner]) (simp_all add: m)
    have step: "read_images cast func buffer count n i (images, p) =
        read_images cast func buffer count n (Suc i) (images @ [?new], p + n)"
      using True inner by (subst read_images.simps) simp
    have upt: "[0..<count - i] = 0 # map Suc [0..<count - Suc i]"
      by (simp add: m upt_conv_Cons map_Suc_upt del: upt_Suc)
    show ?thesis
      by (simp only: step ih upt) (simp add: m comp_def ac_simps)
  qed
qed

lemma copy_labels_run_padded:
  "i \<le> count \<Longrightarrow> count \<le> length labels \<Longrightarrow> p + (count - i) \<le> length buffer \<Longrightarrow>
   copy_labels cast buffer count i (labels, p) =
     Some (take i labels @ map cast (take (count - i) (drop p buffer)) @ drop count labels, p + (count - i))"
proof (induction cast buffer count i "(labels, p)" arbitrary: labels p rule: copy_labels.induct)
  case (1 cast buffer count i labels p)
  show ?case
  proof (cases "i < count")
    case False
    with "1.prems" show ?thesis by (subst copy_labels.simps) simp
  next
    case True
    with "1.prems" have inb: "p < length buffer" "i < length labels" by simp_all
    let ?labels = "labels[i := cast (buffer ! p)]"
    have step: "copy_labels cast buffer count i (labels, p) = copy_labels cast buffer count (Suc i) (?labels, Suc p)"
      using True inb by (subst copy_labels.simps) simp
    have ih: "copy_labels cast buffer count (Suc i) (?labels, Suc p) =
        Some (take (Suc i) ?labels @ map cast (take (count - Suc i) (drop (Suc p) buffer)) @ drop count ?labels,
              Suc p + (count - Suc i))"
      using True inb "1.prems" by (intro "1.hyps") simp_all
    have t: "take (Suc i) ?labels = take i labels @ [cast (buffer ! p)]"
      using inb by (simp add: take_Suc_conv_app_nth)
    have dl: "drop count ?labels = drop count labels"
      using True by simp
    have d: "take (count - i) (drop p buffer) = buffer ! p # take (count - Suc i) (drop (Suc p) buffer)"
    proof -
      have "drop p buffer = buffer ! p # drop (Suc p) buffer"
        using inb by (simp add: Cons_nth_drop_Suc)
      moreover have "count - i = Suc (count - Suc i)" using True by simp
      ultimately show ?thesis by simp
    qed
    show ?thesis using True by (simp only: step ih t dl d) simp
  qed
qed

lemma copy_pixels_overrun:
  "i < length images \<Longrightarrow> j \<le> length (images ! i) \<Longrightarrow> length (images ! i) < n \<Longrightarrow>
   copy_pixels cast buffer n i j (images, p) = None"
proof (induction cast buffer n i j "(images, p)" arbitrary: images p rule: copy_pixels.induct)
  case (1 cast buffer n i j images p)
  from "1.prems" have less: "j < n" by simp
  show ?case
  proof (cases "p < length buffer \<and> i < length images \<and> j < length (images ! i)")
    case False
    with less show ?thesis by (subst copy_pixels.simps) (simp only: if_True if_False)
  next
    case True
    let ?images = "images[i := (images ! i)[j := cast (buffer ! p)]]"
    have "copy_pixels cast buffer n i (Suc j) (?images, Suc p) = None"
      using less True "1.prems" by (intro "1.hyps") simp_all
    with less True show ?thesis by (subst copy_pixels.simps) (simp only: if_True simp_thms)
  qed
qed

subsection \<open>The 32-bit size checks and the limit\<close>

lemma unat_limited_count:
  "unat (if 0 < limit \<and> limit < unat count then word_of_nat limit else count :: uint32)
     = (if 0 < limit then min (unat count) limit else unat count)"
proof (cases "0 < limit \<and> limit < unat count")
  case True
  then have "limit < 2 ^ LENGTH(32)"
    using unsigned_less [of count, where ?'a = nat] by simp
  then have "unat (word_of_nat limit :: uint32) = limit"
    by (simp add: of_nat_inverse)
  with True show ?thesis by (simp add: min_def)
next
  case False
  then show ?thesis by (auto simp add: min_def)
qed

lemma unat_product_le: "unat (rows * columns :: uint32) \<le> unat rows * unat columns"
  by (simp add: unat_word_ariths)

lemma image_size_check_le:
  "unat (count * rows * columns + 16 :: uint32) \<le> unat count * unat rows * unat columns + 16"
proof -
  have "unat (count * rows * columns + 16) \<le> unat (count * rows * columns) + 16"
    by (simp add: unat_word_ariths)
  also have "unat (count * rows * columns) \<le> unat (count * rows) * unat columns"
    by (rule unat_product_le)
  also have "unat (count * rows) \<le> unat count * unat rows"
    by (rule unat_product_le)
  finally show ?thesis by simp
qed

lemma image_size_check_exact:
  assumes "unat count * unat rows * unat columns + 16 < 2 ^ 32"
  shows "unat (count * rows * columns + 16 :: uint32) = unat count * unat rows * unat columns + 16"
proof -
  have "unat (count * rows * columns + 16 :: uint32) = (unat count * unat rows * unat columns + 16) mod 2 ^ 32"
    by (simp add: unat_word_ariths mod_simps)
  with assms show ?thesis by simp
qed

lemma label_size_check_le: "unat (count + 8 :: uint32) \<le> unat count + 8"
  by (simp add: unat_word_ariths)

subsection \<open>The paths through the decoders\<close>

lemma image_open_fails:
  "fs path = None \<Longrightarrow>
   read_mnist_image_file host fs cast images path limit func = Some (images, [error_opening])"
  by (simp add: read_mnist_image_file_def)

lemma image_magic_fails:
  "fs path = Some buffer \<Longrightarrow> read_header host buffer 0 = Some magic \<Longrightarrow> magic \<noteq> 0x803 \<Longrightarrow>
   read_mnist_image_file host fs cast images path limit func = Some (images, [invalid_magic])"
  by (simp add: read_mnist_image_file_def)

lemma image_size_fails:
  "fs path = Some buffer \<Longrightarrow> read_header host buffer 0 = Some 0x803 \<Longrightarrow>
   read_header host buffer 1 = Some count \<Longrightarrow> read_header host buffer 2 = Some rows \<Longrightarrow>
   read_header host buffer 3 = Some columns \<Longrightarrow> length buffer < unat (count * rows * columns + 16) \<Longrightarrow>
   read_mnist_image_file host fs cast images path limit func = Some (images, [not_large_enough])"
  by (simp add: read_mnist_image_file_def)

text \<open>Without wrap-around the size check is the exact one.\<close>

lemma image_too_small_is_reported:
  assumes "fs path = Some buffer"
    and "read_header host buffer 0 = Some 0x803"
    and "read_header host buffer 1 = Some count"
    and "read_header host buffer 2 = Some rows"
    and "read_header host buffer 3 = Some columns"
    and "unat count * unat rows * unat columns + 16 < 2 ^ 32"
    and "length buffer < unat count * unat rows * unat columns + 16"
  shows "read_mnist_image_file host fs cast images path limit func = Some (images, [not_large_enough])"
  using assms(7) image_size_fails [where fs = fs and path = path, OF assms(1-5)]
  by (simp add: image_size_check_exact [OF assms(6)])

lemma image_checks_pass:
  "fs path = Some buffer \<Longrightarrow> read_header host buffer 0 = Some 0x803 \<Longrightarrow>
   read_header host buffer 1 = Some count \<Longrightarrow> read_header host buffer 2 = Some rows \<Longrightarrow>
   read_header host buffer 3 = Some columns \<Longrightarrow> unat (count * rows * columns + 16) \<le> length buffer \<Longrightarrow>
   read_mnist_image_file host fs cast images path limit func =
     map_option (\<lambda>(images', image_buffer). (images', []))
       (read_images cast func buffer (if 0 < limit then min (unat count) limit else unat count)
          (unat (rows * columns)) 0 (images, 16))"
  by (simp add: read_mnist_image_file_def unat_limited_count Let_def not_less [symmetric]
        map_option_case split: option.splits prod.splits del: unsigned_of_nat)

lemma image_decode:
  assumes opened: "fs path = Some buffer"
    and hdr: "read_header host buffer 0 = Some 0x803" "read_header host buffer 1 = Some count"
      "read_header host buffer 2 = Some rows" "read_header host buffer 3 = Some columns"
    and fits: "unat count * unat rows * unat columns + 16 \<le> length buffer"
    and func: "unat (rows * columns) \<le> length (func ())"
  shows "read_mnist_image_file host fs cast [] path limit func =
     Some (map (\<lambda>k. map cast (take (unat (rows * columns)) (drop (16 + k * unat (rows * columns)) buffer))
                      @ drop (unat (rows * columns)) (func ()))
             [0..<(if 0 < limit then min (unat count) limit else unat count)], [])"
proof -
  let ?n = "unat (rows * columns)"
  let ?c = "if 0 < limit then min (unat count) limit else unat count"
  have check: "unat (count * rows * columns + 16) \<le> length buffer"
    using image_size_check_le [of count rows columns] fits by simp
  have "?c * ?n \<le> unat count * (unat rows * unat columns)"
    by (intro mult_le_mono) (simp_all add: unat_product_le)
  with fits have room: "16 + (?c - 0) * ?n \<le> length buffer"
    by (simp add: mult.assoc)
  have "read_images cast func buffer ?c ?n 0 ([], 16) =
      Some ([] @ map (\<lambda>k. map cast (take ?n (drop (16 + k * ?n) buffer)) @ drop ?n (func ())) [0..<?c - 0],
            16 + (?c - 0) * ?n)"
    using func room by (intro read_images_run) simp_all
  then show ?thesis
    by (simp add: image_checks_pass [where fs = fs and path = path, OF opened hdr check])
qed


lemma length_vector_resize: "length (vector_resize dflt new_size xs) = new_size"
  by (simp add: vector_resize_def)

lemma label_open_fails:
  "fs path = None \<Longrightarrow>
   read_mnist_label_file host fs cast labels path limit = Some (labels, [error_opening])"
  by (simp add: read_mnist_label_file_def)

lemma label_magic_fails:
  "fs path = Some buffer \<Longrightarrow> read_header host buffer 0 = Some magic \<Longrightarrow> magic \<noteq> 0x801 \<Longrightarrow>
   read_mnist_label_file host fs cast labels path limit = Some (labels, [invalid_magic])"
  by (simp add: read_mnist_label_file_def)

lemma label_size_fails:
  "fs path = Some buffer \<Longrightarrow> read_header host buffer 0 = Some 0x801 \<Longrightarrow>
   read_header host buffer 1 = Some count \<Longrightarrow> length buffer < unat (count + 8) \<Longrightarrow>
   read_mnist_label_file host fs cast labels path limit = Some (labels, [not_large_enough])"
  by (simp add: read_mnist_label_file_def)

lemma label_checks_pass:
  "fs path = Some buffer \<Longrightarrow> read_header host buffer 0 = Some 0x801 \<Longrightarrow>
   read_header host buffer 1 = Some count \<Longrightarrow> unat (count + 8) \<le> length buffer \<Longrightarrow>
   read_mnist_label_file host fs cast labels path limit =
     map_option (\<lambda>(labels', label_buffer). (labels', []))
       (copy_labels cast buffer (if 0 < limit then min (unat count) limit else unat count) 0
          (vector_resize 0 (if 0 < limit then min (unat count) limit else unat count) labels, 8))"
  by (simp add: read_mnist_label_file_def unat_limited_count Let_def not_less [symmetric]
        map_option_case split: option.splits prod.splits del: unsigned_of_nat)

lemma label_decode:
  assumes opened: "fs path = Some buffer"
    and hdr: "read_header host buffer 0 = Some 0x801" "read_header host buffer 1 = Some count"
    and fits: "unat count + 8 \<le> length buffer"
  shows "read_mnist_label_file host fs cast labels path limit =
     Some (map cast (take (if 0 < limit then min (unat count) limit else unat count) (drop 8 buffer)), [])"
proof -
  let ?c = "if 0 < limit then min (unat count) limit else unat count"
  let ?resized = "vector_resize 0 ?c labels"
  have check: "unat (count + 8) \<le> length buffer"
    using label_size_check_le [of count] fits by simp
  have "?c \<le> unat count" by simp
  with fits have room: "8 + (?c - 0) \<le> length buffer" by simp
  have "copy_labels cast buffer ?c 0 (?resized, 8) =
      Some (take 0 ?resized @ map cast (take (?c - 0) (drop 8 buffer)), 8 + (?c - 0))"
    using room by (intro copy_labels_run) (simp_all add: length_vector_resize)
  then show ?thesis
    by (simp add: label_checks_pass [where fs = fs and path = path, OF opened hdr check])
qed

lemma part_001_checks_pass:
  "fs path = Some buffer \<Longrightarrow> read_header host buffer 0 = Some 0x801 \<Longrightarrow>
   read_header host buffer 1 = Some count \<Longrightarrow> unat (count + 8) \<le> length buffer \<Longrightarrow>
   read_mnist_label_file_part_001 host fs cast path limit =
     map_option (\<lambda>(labels', label_buffer). (labels', []))
       (copy_labels cast buffer (if 0 < limit then min (unat count) limit else unat count) 0
          (replicate (unat count) 0, 8))"
  by (simp add: read_mnist_label_file_part_001_def unat_limited_count Let_def not_less [symmetric]
        map_option_case split: option.splits prod.splits del: unsigned_of_nat)

lemma part_001_label_decode:
  assumes opened: "fs path = Some buffer"
    and hdr: "read_header host buffer 0 = Some 0x801" "read_header host buffer 1 = Some count"
    and fits: "unat count + 8 \<le> length buffer"
  shows "read_mnist_label_file_part_001 host fs cast path limit =
     Some (map cast (take (if 0 < limit then min (unat count) limit else unat count) (drop 8 buffer))
           @ replicate (unat count - (if 0 < limit then min (unat count) limit else unat count)) 0, [])"
proof -
  let ?c = "if 0 < limit then min (unat count) limit else unat count"
  have check: "unat (count + 8) \<le> length buffer"
    using label_size_check_le [of count] fits by simp
  have c: "?c \<le> unat count" by simp
  with fits have room: "8 + (?c - 0) \<le> length buffer" by simp
  have "copy_labels cast buffer ?c 0 (replicate (unat count) 0, 8) =
      Some (take 0 (replicate (unat count) 0) @ map cast (take (?c - 0) (drop 8 buffer))
              @ drop ?c (replicate (unat count) 0), 8 + (?c - 0))"
    using room c by (intro copy_labels_run_padded) simp_all
  then show ?thesis
    by (simp add: part_001_checks_pass [where fs = fs and path = path, OF opened hdr check])
qed

lemma image_changed_after_checks:
  assumes "read_mnist_image_file host fs cast images path limit func = Some (images', out)"
    and "images' \<noteq> images"
  shows "\<exists>buffer count rows columns. fs path = Some buffer
      \<and> read_header host buffer 0 = Some 0x803 \<and> read_header host buffer 1 = Some count
      \<and> read_header host buffer 2 = Some rows \<and> read_header host buffer 3 = Some columns
      \<and> unat (count * rows * columns + 16) \<le> length buffer"
  using assms
  by (auto simp add: read_mnist_image_file_def Let_def not_less
      split: option.splits if_splits Option.bind_splits)

lemma label_changed_after_checks:
  assumes "read_mnist_label_file host fs cast labels path limit = Some (labels', out)"
    and "labels' \<noteq> labels"
  shows "\<exists>buffer count. fs path = Some buffer
      \<and> read_header host buffer 0 = Some 0x801 \<and> read_header host buffer 1 = Some count
      \<and> unat (count + 8) \<le> length buffer"
  using assms
  by (auto simp add: read_mnist_label_file_def Let_def not_less
      split: option.splits if_splits Option.bind_splits)

subsection \<open>Resizing\<close>

lemma resize_training_shrinks:
  "new_size < length (training_images dataset) \<Longrightarrow>
   length (training_images (resize_training new_size dataset)) = new_size \<and>
   length (training_labels (resize_training new_size dataset)) = new_size"
  by (simp add: resize_training_def length_vector_resize)

lemma resize_training_keeps:
  "length (training_images dataset) \<le> new_size \<Longrightarrow> resize_training new_size dataset = dataset"
  by (simp add: resize_training_def)

lemma resize_test_shrinks:
  "new_size < length (test_images dataset) \<Longrightarrow>
   length (test_images (resize_test new_size dataset)) = new_size \<and>
   length (test_labels (resize_test new_size dataset)) = new_size"
  by (simp add: resize_test_def length_vector_resize)

lemma resize_test_keeps:
  "length (test_images dataset) \<le> new_size \<Longrightarrow> resize_test new_size dataset = dataset"
  by (simp add: resize_test_def)

lemma sizes_agree_resize_training: "sizes_agree dataset \<Longrightarrow> sizes_agree (resize_training new_size dataset)"
  by (simp add: sizes_agree_def resize_training_def length_vector_resize)

lemma sizes_agree_resize_test: "sizes_agree dataset \<Longrightarrow> sizes_agree (resize_test new_size dataset)"
  by (simp add: sizes_agree_def resize_test_def length_vector_resize)

lemma sizes_agree_resize_calls: "sizes_agree dataset \<Longrightarrow> sizes_agree (resize_calls calls dataset)"
proof (induction calls arbitrary: dataset)
  case Nil
  then show ?case by simp
next
  case (Cons call calls)
  then show ?case
    by (cases call) (simp_all add: sizes_agree_resize_training sizes_agree_resize_test)
qed

lemma direct_images_length:
  assumes "fs path = Some buffer"
    and "read_header host buffer 0 = Some 0x803"
    and "read_header host buffer 1 = Some count"
    and "read_header host buffer 2 = Some rows"
    and "read_header host buffer 3 = Some columns"
    and "unat count * unat rows * unat columns + 16 \<le> length buffer"
    and "unat rows * unat columns \<le> 784"
  shows "\<exists>images'. read_mnist_image_file host fs cast [] path limit (\<lambda>_. replicate (1 * 28 * 28) 0)
            = Some (images', [])
         \<and> length images' = (if 0 < limit then min (unat count) limit else unat count)"
proof -
  have "unat (rows * columns) \<le> unat rows * unat columns" by (rule unat_product_le)
  with assms(7) have func: "unat (rows * columns) \<le> length ((\<lambda>_. replicate (1 * 28 * 28) 0) ())"
    by simp
  show ?thesis
    using image_decode [where fs = fs and path = path and func = "\<lambda>_. replicate (1 * 28 * 28) 0"
        and cast = cast and limit = limit, OF assms(1-6) func]
    by simp
qed

lemma direct_labels_length:
  assumes "fs path = Some buffer"
    and "read_header host buffer 0 = Some 0x801"
    and "read_header host buffer 1 = Some count"
    and "unat count + 8 \<le> length buffer"
  shows "\<exists>labels'. read_mnist_label_file host fs cast labels path limit = Some (labels', [])
      \<and> length labels' = (if 0 < limit then min (unat count) limit else unat count)"
proof -
  let ?c = "if 0 < limit then min (unat count) limit else unat count"
  have "?c \<le> unat count" by simp
  with assms(4) have "length (map cast (take ?c (drop 8 buffer))) = ?c" by simp
  then show ?thesis
    using label_decode [where fs = fs and path = path and cast = cast and labels = labels
        and limit = limit, OF assms]
    by simp
qed

subsection \<open>The concrete files\<close>

lemma overflowing_headers:
  "read_header LittleEndian overflowing_image_file 0 = Some 0x803"
  "read_header LittleEndian overflowing_image_file 1 = Some 0x10000"
  "read_header LittleEndian overflowing_image_file 2 = Some 0x10000"
  "read_header LittleEndian overflowing_image_file 3 = Some 1"
  by (simp_all add: read_header_def deref_uint32_def native_uint32.simps overflowing_image_file_def)

lemma synthetic_image_headers:
  "read_header LittleEndian synthetic_image_file 0 = Some 0x803"
  "read_header LittleEndian synthetic_image_file 1 = Some 2"
  "read_header LittleEndian synthetic_image_file 2 = Some 2"
  "read_header LittleEndian synthetic_image_file 3 = Some 2"
  by (simp_all add: read_header_def deref_uint32_def native_uint32.simps synthetic_image_file_def)

lemma synthetic_label_headers:
  "read_header LittleEndian synthetic_label_file 0 = Some 0x801"
  "read_header LittleEndian synthetic_label_file 1 = Some 3"
  by (simp_all add: read_header_def deref_uint32_def native_uint32.simps synthetic_label_file_def)

lemma synthetic_image_decode:
  assumes "fs path = Some synthetic_image_file" and "4 \<le> length (func ())"
  shows "read_mnist_image_file LittleEndian fs cast [] path limit func =
     Some (map (\<lambda>k. map cast (take 4 (drop (16 + k * 4) synthetic_image_file)) @ drop 4 (func ()))
             [0..<(if 0 < limit then min 2 limit else 2)], [])"
proof -
  have fits: "unat (2 :: uint32) * unat (2 :: uint32) * unat (2 :: uint32) + 16 \<le> length synthetic_image_file"
    by (simp add: synthetic_image_file_def)
  have func: "unat (2 * 2 :: uint32) \<le> length (func ())"
    using assms(2) by simp
  show ?thesis
    using image_decode [where fs = fs and path = path and func = func and cast = cast and limit = limit,
        OF assms(1) synthetic_image_headers fits func]
    by simp
qed

lemma synthetic_pixels:
  "take 4 (drop 16 synthetic_image_file) = [1, 2, 3, 4]"
  "take 4 (drop 20 synthetic_image_file) = [5, 6, 7, 8]"
  by (simp_all add: synthetic_image_file_def)

lemma upt_2: "[0..<2] = [0, 1]"
  by (simp add: upt_rec numeral_2_eq_2)

lemma synthetic_labels: "take 3 (drop 8 synthetic_label_file) = [7, 2, 9]"
  by (simp add: synthetic_label_file_def)

lemma two_label_headers:
  "read_header LittleEndian two_label_file 0 = Some 0x801"
  "read_header LittleEndian two_label_file 1 = Some 2"
  by (simp_all add: read_header_def deref_uint32_def native_uint32.simps two_label_file_def)

lemma empty_image_headers:
  "read_header LittleEndian empty_image_file 0 = Some 0x803"
  "read_header LittleEndian empty_image_file 1 = Some 0"
  "read_header LittleEndian empty_image_file 2 = Some 28"
  "read_header LittleEndian empty_image_file 3 = Some 28"
  by (simp_all add: read_header_def deref_uint32_def native_uint32.simps empty_image_file_def)

lemma truncated_image_headers:
  "read_header LittleEndian truncated_image_file 0 = Some 0x803"
  "read_header LittleEndian truncated_image_file 1 = Some 2"
  "read_header LittleEndian truncated_image_file 2 = Some 2"
  "read_header LittleEndian truncated_image_file 3 = Some 2"
  by (simp_all add: read_header_def deref_uint32_def native_uint32.simps truncated_image_file_def)

lemma truncated_label_headers:
  "read_header LittleEndian truncated_label_file 0 = Some 0x801"
  "read_header LittleEndian truncated_label_file 1 = Some 3"
  by (simp_all add: read_header_def deref_uint32_def native_uint32.simps truncated_label_file_def)

lemma truncated_sizes:
  "length truncated_image_file < unat (2 * 2 * 2 + 16 :: uint32)"
  "length truncated_label_file < unat (3 + 8 :: uint32)"
  by (simp_all add: truncated_image_file_def truncated_label_file_def)

lemma byte_swapped_label_headers:
  "read_header BigEndian byte_swapped_label_file 0 = Some 0x801"
  "read_header BigEndian byte_swapped_label_file 1 = Some 2"
  by (simp_all add: read_header_def deref_uint32_def native_uint32.simps byte_swapped_label_file_def)

lemma wide_image_headers:
  "read_header LittleEndian wide_image_file 0 = Some 0x803"
  "read_header LittleEndian wide_image_file 1 = Some 1"
  "read_header LittleEndian wide_image_file 2 = Some 1"
  "read_header LittleEndian wide_image_file 3 = Some 785"
  by (simp_all add: read_header_def deref_uint32_def native_uint32.simps wide_image_file_def nth_append)

lemma one_label_headers:
  "read_header LittleEndian one_label_file 0 = Some 0x801"
  "read_header LittleEndian one_label_file 1 = Some 1"
  by (simp_all add: read_header_def deref_uint32_def native_uint32.simps one_label_file_def)

lemma synthetic_image_big_endian_magic:
  "read_header BigEndian synthetic_image_file 0 = Some 0x03080000"
  by (simp add: read_header_def deref_uint32_def native_uint32.simps synthetic_image_file_def)

section \<open>The claims\<close>

subsection \<open>C1: a declared payload larger than the file\<close>

text \<open>
  C1 says that every image file whose declared \<open>count * rows * columns\<close>, computed
  exactly, exceeds the file size minus 16 is reported as corrupt, and that no pixel is
  read beyond the end of the buffer. The decoder computes the product and the sum in
  32 bits. On the 16-byte file below (magic \<open>0x803\<close>, 65536 images of 65536 rows and
  1 column) the exact payload is \<open>2 ^ 32\<close> bytes, the wrapped sum is 16, the size
  check passes, and the first pixel read is at offset 16, beyond the end of the buffer:
  the run has no defined behaviour, whatever the limit, the functor and the container.
  (When \<open>count * rows * columns + 16\<close> is below \<open>2 ^ 32\<close> the check is exact and
  the file is reported: lemma \<open>image_too_small_is_reported\<close>.)
\<close>

theorem overflowing_geometry_reads_past_buffer:
  "length overflowing_image_file = 16 \<and>
   read_header LittleEndian overflowing_image_file 0 = Some 0x803 \<and>
   read_header LittleEndian overflowing_image_file 1 = Some 0x10000 \<and>
   read_header LittleEndian overflowing_image_file 2 = Some 0x10000 \<and>
   read_header LittleEndian overflowing_image_file 3 = Some 1 \<and>
   length overflowing_image_file - 16 < unat (0x10000 :: uint32) * unat (0x10000 :: uint32) * unat (1 :: uint32) \<and>
   read_mnist_image_file LittleEndian (\<lambda>p. Some overflowing_image_file) cast images path limit func = None"
proof -
  have len: "length overflowing_image_file = 16"
    by (simp add: overflowing_image_file_def)
  have check: "unat (0x10000 * 0x10000 * 1 + 16 :: uint32) \<le> length overflowing_image_file"
    by (simp add: len)
  let ?c = "if 0 < limit then min (unat (0x10000 :: uint32)) limit else unat (0x10000 :: uint32)"
  have pos: "0 < ?c" by simp
  have inner: "copy_pixels cast overflowing_image_file (unat (0x10000 * 1 :: uint32)) 0 0 (images @ [func ()], 16) = None"
    by (subst copy_pixels.simps) (simp add: len)
  have "read_images cast func overflowing_image_file ?c (unat (0x10000 * 1 :: uint32)) 0 (images, 16) = None"
    using pos by (subst read_images.simps) (simp only: inner if_True option.case)
  then have run: "read_mnist_image_file LittleEndian (\<lambda>p. Some overflowing_image_file) cast images path limit func = None"
    by (simp add: image_checks_pass [where fs = "\<lambda>p. Some overflowing_image_file" and path = path,
          OF refl overflowing_headers check])
  have more: "length overflowing_image_file - 16 < unat (0x10000 :: uint32) * unat (0x10000 :: uint32) * unat (1 :: uint32)"
    by (simp add: len)
  show ?thesis
    using len overflowing_headers more run by blast
qed

subsection \<open>C2: the images of a well-formed file\<close>




subsection \<open>C3: the header reader\<close>

text \<open>
  C3 says that \<^verbatim>\<open>read_header\<close> returns the big-endian integer stored at bytes
  \<open>[4 * position, 4 * position + 4)\<close> on a host of either byte order. The function
  loads the word in the host's byte order and reverses its bytes unconditionally. So, for
  a buffer of at least \<open>(position + 1) * 4\<close> bytes: byte 0 of the result is byte 3 of
  the loaded word, byte 1 is byte 2, byte 2 is byte 1 and byte 3 is byte 0, on every
  host; on a little-endian host the result is the big-endian integer
  \<open>buffer[4p] * 2^24 + buffer[4p+1] * 2^16 + buffer[4p+2] * 2^8 + buffer[4p+3]\<close>;
  on a big-endian host it is the little-endian reading of the same four bytes.
\<close>

theorem read_header_reverses_native_word:
  assumes "(position + 1) * 4 \<le> length buffer"
  shows "\<exists>v w. deref_uint32 host buffer position = Some v \<and> read_header host buffer position = Some w
      \<and> (ucast w :: byte) = ucast (drop_bit 24 v)
      \<and> (ucast (drop_bit 8 w) :: byte) = ucast (drop_bit 16 v)
      \<and> (ucast (drop_bit 16 w) :: byte) = ucast (drop_bit 8 v)
      \<and> (ucast (drop_bit 24 w) :: byte) = ucast v
      \<and> (host = LittleEndian \<longrightarrow>
           unat w = unat (buffer ! (4 * position)) * 2 ^ 24 + unat (buffer ! (4 * position + 1)) * 2 ^ 16
                  + unat (buffer ! (4 * position + 2)) * 2 ^ 8 + unat (buffer ! (4 * position + 3)))
      \<and> (host = BigEndian \<longrightarrow>
           unat w = unat (buffer ! (4 * position + 3)) * 2 ^ 24 + unat (buffer ! (4 * position + 2)) * 2 ^ 16
                  + unat (buffer ! (4 * position + 1)) * 2 ^ 8 + unat (buffer ! (4 * position)))"
proof -
  let ?v = "native_uint32 host (buffer ! (4 * position)) (buffer ! (4 * position + 1))
              (buffer ! (4 * position + 2)) (buffer ! (4 * position + 3))"
  have v: "deref_uint32 host buffer position = Some ?v"
    using assms by (simp add: deref_uint32_def)
  have w: "read_header host buffer position = Some (byte_reverse ?v)"
    using assms by (rule read_header_value)
  have le: "host = LittleEndian \<longrightarrow>
      unat (byte_reverse ?v) = unat (buffer ! (4 * position)) * 2 ^ 24 + unat (buffer ! (4 * position + 1)) * 2 ^ 16
                  + unat (buffer ! (4 * position + 2)) * 2 ^ 8 + unat (buffer ! (4 * position + 3))"
    by (rule impI) (simp only: byte_reverse_little unat_native_big)
  have be: "host = BigEndian \<longrightarrow>
      unat (byte_reverse ?v) = unat (buffer ! (4 * position + 3)) * 2 ^ 24 + unat (buffer ! (4 * position + 2)) * 2 ^ 16
                  + unat (buffer ! (4 * position + 1)) * 2 ^ 8 + unat (buffer ! (4 * position))"
    by (rule impI) (simp only: byte_reverse_big unat_native_little)
  show ?thesis
    using v w le be byte_reverse_byte0 [of ?v] byte_reverse_byte1 [of ?v] byte_reverse_byte2 [of ?v]
      byte_reverse_byte3 [of ?v]
    by blast
qed

text \<open>The theorem at the magic number of an image file, on a little-endian host.\<close>

theorem read_header_reverses_native_word_witness:
  "(0 + 1) * 4 \<le> length [0, 0, 8, 3 :: byte] \<and>
   (\<exists>w. read_header LittleEndian [0, 0, 8, 3] 0 = Some w \<and> unat w = 0 * 2 ^ 24 + 0 * 2 ^ 16 + 8 * 2 ^ 8 + 3)"
  using read_header_reverses_native_word [of 0 "[0, 0, 8, 3]" LittleEndian] by auto

text \<open>
  On a big-endian host the four bytes \<open>00 00 08 03\<close> are read as \<open>0x03080000\<close>,
  not as the big-endian integer \<open>0x803\<close>.
\<close>

theorem read_header_big_endian_host_counterexample:
  "(0 + 1) * 4 \<le> length [0, 0, 8, 3 :: byte] \<and>
   read_header BigEndian [0, 0, 8, 3] 0 = Some 0x03080000 \<and>
   unat (0x03080000 :: uint32) \<noteq> unat (0 :: byte) * 2 ^ 24 + unat (0 :: byte) * 2 ^ 16 + unat (8 :: byte) * 2 ^ 8 + unat (3 :: byte)"
  by (simp add: read_header_def deref_uint32_def native_uint32.simps)

subsection \<open>C4: the labels of a well-formed file\<close>

text \<open>
  The decoder of \<^verbatim>\<open>include/mnist/mnist_reader.hpp\<close> applies the limit before
  \<^verbatim>\<open>labels.resize(count)\<close>: for every label file with magic \<open>0x801\<close> whose declared
  count fits (\<open>count + 8 \<le> size\<close>) and every limit, it leaves in the container exactly
  \<open>min(count, limit)\<close> labels when the limit is positive and exactly \<open>count\<close> labels
  when it is 0: the first payload bytes in file order, each cast from its unsigned byte
  value, whatever the container held on entry.
\<close>

theorem label_file_decodes_to_prefix:
  assumes "fs path = Some buffer"
    and "read_header host buffer 0 = Some 0x801"
    and "read_header host buffer 1 = Some count"
    and "unat count + 8 \<le> length buffer"
  shows "\<exists>labels'. read_mnist_label_file host fs cast labels path limit = Some (labels', [])
      \<and> length labels' = (if 0 < limit then min (unat count) limit else unat count)
      \<and> labels' = map cast (take (length labels') (drop 8 buffer))"
proof -
  let ?c = "if 0 < limit then min (unat count) limit else unat count"
  have "?c \<le> unat count" by simp
  with assms(4) have "length (map cast (take ?c (drop 8 buffer))) = ?c" by simp
  then show ?thesis
    using label_decode [where fs = fs and path = path and cast = cast and labels = labels
        and limit = limit, OF assms]
    by simp
qed

text \<open>That decoder on the synthetic label file, with limit 2 and a container of five labels.\<close>

theorem label_file_decodes_to_prefix_witness:
  "read_mnist_label_file LittleEndian (\<lambda>p. Some synthetic_label_file) (\<lambda>b. b) [5, 5, 5, 5, 5]
     ''mnist/train-labels-idx1-ubyte'' 2 = Some ([7, 2], [])"
proof -
  have fits: "unat (3 :: uint32) + 8 \<le> length synthetic_label_file"
    by (simp add: synthetic_label_file_def)
  have two: "take 2 (drop 8 synthetic_label_file) = [7, 2]"
    by (simp add: synthetic_label_file_def)
  show ?thesis
    using label_file_decodes_to_prefix [where fs = "\<lambda>p. Some synthetic_label_file"
        and path = "''mnist/train-labels-idx1-ubyte''" and cast = "\<lambda>b. b" and limit = 2
        and labels = "[5, 5, 5, 5, 5]", OF refl synthetic_label_headers fits]
    by (auto simp add: two)
qed

text \<open>
  C4 says that \<^verbatim>\<open>read_mnist_label_file\<close> produces exactly \<open>min(item_count, limit)\<close>
  labels when the limit is positive. The decoder of \<^verbatim>\<open>src/unnamed/part_001\<close> sizes its
  container with the item count and applies the limit afterwards: on the synthetic label
  file, which is well-formed and declares 3 labels, limit 2 yields the 3 labels
  \<open>[7, 2, 0]\<close>, not the 2 labels \<open>[7, 2]\<close>.
\<close>

theorem part_001_limit_keeps_item_count:
  "read_header LittleEndian synthetic_label_file 0 = Some 0x801
   \<and> read_header LittleEndian synthetic_label_file 1 = Some 3
   \<and> unat (3 :: uint32) + 8 \<le> length synthetic_label_file
   \<and> read_mnist_label_file_part_001 LittleEndian (\<lambda>p. Some synthetic_label_file) (\<lambda>b. b)
         ''mnist/train-labels-idx1-ubyte'' 2 = Some ([7, 2, 0], [])
   \<and> length [7, 2, 0 :: byte] \<noteq> min 3 2"
proof -
  have fits: "unat (3 :: uint32) + 8 \<le> length synthetic_label_file"
    by (simp add: synthetic_label_file_def)
  have two: "take 2 (drop 8 synthetic_label_file) = [7, 2]"
    by (simp add: synthetic_label_file_def)
  have run: "read_mnist_label_file_part_001 LittleEndian (\<lambda>p. Some synthetic_label_file) (\<lambda>b. b)
         ''mnist/train-labels-idx1-ubyte'' 2 = Some ([7, 2, 0 :: byte], [])"
    using part_001_label_decode [where fs = "\<lambda>p. Some synthetic_label_file"
        and path = "''mnist/train-labels-idx1-ubyte''" and cast = "\<lambda>b. b :: byte" and limit = 2,
        OF refl synthetic_label_headers fits]
    by (simp add: two)
  show ?thesis
    using synthetic_label_headers fits run by simp
qed

subsection \<open>C5: a wrong magic number\<close>

text \<open>
  C5 says that a file whose first four bytes, read as a big-endian integer, are not
  \<open>0x803\<close> (image decoder) or not \<open>0x801\<close> (label decoder) yields an
  \<open>InvalidFormatError\<close> and that nothing is materialised from it. The decoders compare
  what \<^verbatim>\<open>read_header\<close> returns, which is the big-endian integer on a little-endian
  host only, and they return \<^verbatim>\<open>void\<close>. As amended: on a little-endian host, for every
  file of at least four bytes whose first four bytes, read as a big-endian integer, are
  not \<open>0x803\<close> (image decoder) or not \<open>0x801\<close> (label decoder), the decoder prints the
  invalid-magic line and returns normally with the container exactly as it was on entry:
  no image or label is materialised, and the call returns nothing else.
\<close>

theorem wrong_magic_is_rejected:
  assumes "fs path = Some buffer" and "4 \<le> length buffer"
  shows "(unat (buffer ! 0) * 2 ^ 24 + unat (buffer ! 1) * 2 ^ 16 + unat (buffer ! 2) * 2 ^ 8
            + unat (buffer ! 3) \<noteq> 0x803
          \<longrightarrow> read_mnist_image_file LittleEndian fs pixel_cast images path limit func
                = Some (images, [invalid_magic]))
       \<and> (unat (buffer ! 0) * 2 ^ 24 + unat (buffer ! 1) * 2 ^ 16 + unat (buffer ! 2) * 2 ^ 8
            + unat (buffer ! 3) \<noteq> 0x801
          \<longrightarrow> read_mnist_label_file LittleEndian fs label_cast labels path limit
                = Some (labels, [invalid_magic]))"
proof -
  from read_magic_little [OF assms(2)]
  obtain magic where magic: "read_header LittleEndian buffer 0 = Some magic"
    and val: "unat magic = unat (buffer ! 0) * 2 ^ 24 + unat (buffer ! 1) * 2 ^ 16
                + unat (buffer ! 2) * 2 ^ 8 + unat (buffer ! 3)"
    by blast
  have "magic \<noteq> 0x803" if "unat magic \<noteq> 0x803"
    using that by auto
  moreover have "magic \<noteq> 0x801" if "unat magic \<noteq> 0x801"
    using that by auto
  ultimately show ?thesis
    using image_magic_fails [where fs = fs and path = path, OF assms(1) magic]
      label_magic_fails [where fs = fs and path = path, OF assms(1) magic]
    by (simp only: val [symmetric]) blast
qed

text \<open>A label file given to the image decoder, and an image file given to the label decoder.\<close>

theorem wrong_magic_is_rejected_witness:
  "read_mnist_image_file LittleEndian (\<lambda>p. Some synthetic_label_file) (\<lambda>b. b) [[1, 1]] ''t10k-images-idx3-ubyte'' 0
       (\<lambda>u. replicate 4 0) = Some ([[1, 1]], [invalid_magic])
   \<and> read_mnist_label_file LittleEndian (\<lambda>p. Some synthetic_image_file) (\<lambda>b. b) [1, 1] ''t10k-labels-idx1-ubyte'' 0
       = Some ([1, 1], [invalid_magic])"
  using wrong_magic_is_rejected [where fs = "\<lambda>p. Some synthetic_label_file" and buffer = synthetic_label_file
      and path = "''t10k-images-idx3-ubyte''" and pixel_cast = "\<lambda>b. b" and images = "[[1, 1]]"
      and limit = 0 and func = "\<lambda>u. replicate 4 0" and label_cast = "\<lambda>b. b :: byte"
      and labels = "[]"]
    wrong_magic_is_rejected [where fs = "\<lambda>p. Some synthetic_image_file" and buffer = synthetic_image_file
      and path = "''t10k-labels-idx1-ubyte''" and label_cast = "\<lambda>b. b" and labels = "[1, 1]"
      and limit = 0 and pixel_cast = "\<lambda>b. b :: byte" and images = "[]" and func = "\<lambda>u. []"]
  by (simp add: synthetic_label_file_def synthetic_image_file_def)

text \<open>
  On a big-endian host the label decoder accepts a file whose first four bytes are
  \<open>01 08 00 00\<close>, the big-endian integer \<open>0x01080000\<close>, and materialises the labels
  \<open>[7, 2]\<close> from it without a diagnostic. On a little-endian host the image decoder,
  given a label file and an empty container, hands back the empty container, as it does
  for a well-formed image file that declares no image.
\<close>

theorem big_endian_host_accepts_wrong_magic_counterexample:
  "4 \<le> length byte_swapped_label_file
   \<and> unat (byte_swapped_label_file ! 0) * 2 ^ 24 + unat (byte_swapped_label_file ! 1) * 2 ^ 16
       + unat (byte_swapped_label_file ! 2) * 2 ^ 8 + unat (byte_swapped_label_file ! 3) \<noteq> 0x801
   \<and> read_mnist_label_file BigEndian (\<lambda>p. Some byte_swapped_label_file) (\<lambda>b. b) []
         ''mnist/train-labels-idx1-ubyte'' 0 = Some ([7, 2], [])
   \<and> read_mnist_image_file LittleEndian (\<lambda>p. Some synthetic_label_file) (\<lambda>b. b) []
         ''mnist/train-images-idx3-ubyte'' 0 (\<lambda>u. replicate 784 (0 :: byte)) = Some ([], [invalid_magic])
   \<and> read_mnist_image_file LittleEndian (\<lambda>p. Some empty_image_file) (\<lambda>b. b) []
         ''mnist/train-images-idx3-ubyte'' 0 (\<lambda>u. replicate 784 (0 :: byte)) = Some ([], [])"
proof -
  have fits: "unat (2 :: uint32) + 8 \<le> length byte_swapped_label_file"
    by (simp add: byte_swapped_label_file_def)
  have two: "take 2 (drop 8 byte_swapped_label_file) = [7, 2]"
    by (simp add: byte_swapped_label_file_def)
  have accepted: "read_mnist_label_file BigEndian (\<lambda>p. Some byte_swapped_label_file) (\<lambda>b. b) []
         ''mnist/train-labels-idx1-ubyte'' 0 = Some ([7, 2 :: byte], [])"
    using label_decode [where fs = "\<lambda>p. Some byte_swapped_label_file"
        and path = "''mnist/train-labels-idx1-ubyte''" and cast = "\<lambda>b. b :: byte" and labels = "[]"
        and limit = 0, OF refl byte_swapped_label_headers fits]
    by (simp add: two)
  have first: "4 \<le> length byte_swapped_label_file
      \<and> unat (byte_swapped_label_file ! 0) * 2 ^ 24 + unat (byte_swapped_label_file ! 1) * 2 ^ 16
       + unat (byte_swapped_label_file ! 2) * 2 ^ 8 + unat (byte_swapped_label_file ! 3) \<noteq> 0x801"
    by (simp add: byte_swapped_label_file_def)
  have rejected: "read_mnist_image_file LittleEndian (\<lambda>p. Some synthetic_label_file) (\<lambda>b. b) []
         ''mnist/train-images-idx3-ubyte'' 0 (\<lambda>u. replicate 784 (0 :: byte)) = Some ([], [invalid_magic])"
    using image_magic_fails [where fs = "\<lambda>p. Some synthetic_label_file"
        and path = "''mnist/train-images-idx3-ubyte''", OF refl synthetic_label_headers(1)]
    by simp
  have empty_fits: "unat (0 :: uint32) * unat (28 :: uint32) * unat (28 :: uint32) + 16 \<le> length empty_image_file"
    by (simp add: empty_image_file_def)
  have func: "unat (28 * 28 :: uint32) \<le> length ((\<lambda>u. replicate 784 (0 :: byte)) ())"
    by simp
  have empty: "read_mnist_image_file LittleEndian (\<lambda>p. Some empty_image_file) (\<lambda>b. b) []
       ''mnist/train-images-idx3-ubyte'' 0 (\<lambda>u. replicate 784 (0 :: byte)) = Some ([], [])"
    using image_decode [where fs = "\<lambda>p. Some empty_image_file" and path = "''mnist/train-images-idx3-ubyte''"
        and func = "\<lambda>u. replicate 784 (0 :: byte)" and cast = "\<lambda>b. b" and limit = 0,
        OF refl empty_image_headers empty_fits func]
    by simp
  show ?thesis
    using first accepted rejected empty by blast
qed

subsection \<open>C6: resizing a split\<close>

text \<open>
  C6: for every dataset and every \<open>n\<close>, \<^verbatim>\<open>resize_training(n)\<close> with \<open>n\<close> less than
  the number of training images leaves training images and training labels both with
  length exactly \<open>n\<close>, and with \<open>n\<close> greater than or equal to that number leaves the
  dataset unchanged; likewise \<^verbatim>\<open>resize_test\<close> on the test split. The current size of a
  split is the size of its image container, which is what the code tests.
\<close>

theorem resize_shrinks_or_keeps:
  "(new_size < length (training_images dataset) \<longrightarrow>
      length (training_images (resize_training new_size dataset)) = new_size \<and>
      length (training_labels (resize_training new_size dataset)) = new_size)
   \<and> (length (training_images dataset) \<le> new_size \<longrightarrow> resize_training new_size dataset = dataset)
   \<and> (new_size < length (test_images dataset) \<longrightarrow>
      length (test_images (resize_test new_size dataset)) = new_size \<and>
      length (test_labels (resize_test new_size dataset)) = new_size)
   \<and> (length (test_images dataset) \<le> new_size \<longrightarrow> resize_test new_size dataset = dataset)"
  using resize_training_shrinks [of new_size dataset] resize_training_keeps [of dataset new_size]
    resize_test_shrinks [of new_size dataset] resize_test_keeps [of dataset new_size]
  by blast

text \<open>
  A dataset with three training images and a single training label, two test images and
  two test labels.
\<close>

theorem resize_shrinks_or_keeps_witness:
  "length (training_images (resize_training 2 small_dataset)) = 2
   \<and> length (training_labels (resize_training 2 small_dataset)) = 2
   \<and> resize_training 3 small_dataset = small_dataset
   \<and> length (test_images (resize_test 1 small_dataset)) = 1
   \<and> length (test_labels (resize_test 1 small_dataset)) = 1
   \<and> resize_test 7 small_dataset = small_dataset"
proof -
  have sizes: "length (training_images small_dataset) = 3" "length (test_images small_dataset) = 2"
    by (simp_all add: small_dataset_def)
  show ?thesis
    using resize_shrinks_or_keeps [of 2 small_dataset] resize_shrinks_or_keeps [of 3 small_dataset]
      resize_shrinks_or_keeps [of 1 small_dataset] resize_shrinks_or_keeps [of 7 small_dataset]
    by (simp add: sizes)
qed

subsection \<open>C7: the assembled dataset\<close>

text \<open>
  C7 says that for four well-formed files, the image file of each split declaring the
  same item count as its label file, the assembled dataset has as many training images
  as training labels and as many test images as test labels, and that resizing keeps it
  so. \<^verbatim>\<open>read_dataset_direct\<close> creates every image with \<open>1 * 28 * 28\<close> pixels, whatever
  the file declares. As amended: when the four files have the magic number of their kind
  and hold the payload their header declares, the image file of each split declares the
  same item count as its label file, and the images of both image files have at most 784
  pixels (\<open>rows * columns \<le> 784\<close>), \<^verbatim>\<open>read_dataset_direct\<close> returns a dataset with as
  many training images as training labels and as many test images as test labels, and
  every sequence of \<^verbatim>\<open>resize_training\<close> and \<^verbatim>\<open>resize_test\<close> calls keeps it so.
\<close>

theorem assembled_dataset_sizes_agree:
  assumes "fs ''mnist/train-images-idx3-ubyte'' = Some tr_images"
    and "read_header host tr_images 0 = Some 0x803"
    and "read_header host tr_images 1 = Some tr_count"
    and "read_header host tr_images 2 = Some tr_rows"
    and "read_header host tr_images 3 = Some tr_columns"
    and "unat tr_count * unat tr_rows * unat tr_columns + 16 \<le> length tr_images"
    and "unat tr_rows * unat tr_columns \<le> 784"
    and "fs ''mnist/train-labels-idx1-ubyte'' = Some tr_labels"
    and "read_header host tr_labels 0 = Some 0x801"
    and "read_header host tr_labels 1 = Some tr_count"
    and "unat tr_count + 8 \<le> length tr_labels"
    and "fs ''mnist/t10k-images-idx3-ubyte'' = Some te_images"
    and "read_header host te_images 0 = Some 0x803"
    and "read_header host te_images 1 = Some te_count"
    and "read_header host te_images 2 = Some te_rows"
    and "read_header host te_images 3 = Some te_columns"
    and "unat te_count * unat te_rows * unat te_columns + 16 \<le> length te_images"
    and "unat te_rows * unat te_columns \<le> 784"
    and "fs ''mnist/t10k-labels-idx1-ubyte'' = Some te_labels"
    and "read_header host te_labels 0 = Some 0x801"
    and "read_header host te_labels 1 = Some te_count"
    and "unat te_count + 8 \<le> length te_labels"
  shows "\<exists>dataset out.
      read_dataset_direct host fs pixel_cast label_cast training_limit test_limit = Some (dataset, out)
      \<and> (\<forall>calls. sizes_agree (resize_calls calls dataset))"
proof -
  let ?tr = "if 0 < training_limit then min (unat tr_count) training_limit else unat tr_count"
  let ?te = "if 0 < test_limit then min (unat te_count) test_limit else unat te_count"
  obtain tri where tri: "read_training_images host fs pixel_cast training_limit (\<lambda>_. replicate (1 * 28 * 28) 0)
        = Some (tri, [])" and tri_len: "length tri = ?tr"
    unfolding read_training_images_def
    using direct_images_length [where fs = fs, OF assms(1-7)] by blast
  obtain tei where tei: "read_test_images host fs pixel_cast test_limit (\<lambda>_. replicate (1 * 28 * 28) 0)
        = Some (tei, [])" and tei_len: "length tei = ?te"
    unfolding read_test_images_def
    using direct_images_length [where fs = fs, OF assms(12-18)] by blast
  obtain trl where trl: "read_training_labels host fs label_cast training_limit = Some (trl, [])"
    and trl_len: "length trl = ?tr"
    unfolding read_training_labels_def
    using direct_labels_length [where fs = fs, OF assms(8-11)] by blast
  obtain tel where tel: "read_test_labels host fs label_cast test_limit = Some (tel, [])"
    and tel_len: "length tel = ?te"
    unfolding read_test_labels_def
    using direct_labels_length [where fs = fs, OF assms(19-22)] by blast
  let ?dataset = "\<lparr>training_images = tri, test_images = tei, training_labels = trl, test_labels = tel\<rparr>"
  have run: "read_dataset_direct host fs pixel_cast label_cast training_limit test_limit = Some (?dataset, [])"
    unfolding read_dataset_direct_def tri tei trl tel by simp
  have "sizes_agree ?dataset"
    by (simp add: sizes_agree_def tri_len tei_len trl_len tel_len)
  then have "\<forall>calls. sizes_agree (resize_calls calls ?dataset)"
    by (simp add: sizes_agree_resize_calls)
  with run show ?thesis by blast
qed

text \<open>
  A file system with two images of 2 by 2 pixels and two labels in each split, read with
  a training limit of 1 and no test limit, then resized.
\<close>

theorem assembled_dataset_sizes_agree_witness:
  "\<exists>dataset out.
      read_dataset_direct LittleEndian mnist_fs (\<lambda>b. b :: byte) (\<lambda>b. b :: byte) 1 0 = Some (dataset, out)
      \<and> sizes_agree dataset
      \<and> sizes_agree (resize_calls [Resize_training 5, Resize_test 1] dataset)"
proof -
  have files:
    "mnist_fs ''mnist/train-images-idx3-ubyte'' = Some synthetic_image_file"
    "mnist_fs ''mnist/train-labels-idx1-ubyte'' = Some two_label_file"
    "mnist_fs ''mnist/t10k-images-idx3-ubyte'' = Some synthetic_image_file"
    "mnist_fs ''mnist/t10k-labels-idx1-ubyte'' = Some two_label_file"
    by (simp_all add: mnist_fs_def)
  have image_fits:
    "unat (2 :: uint32) * unat (2 :: uint32) * unat (2 :: uint32) + 16 \<le> length synthetic_image_file"
    by (simp add: synthetic_image_file_def)
  have geometry: "unat (2 :: uint32) * unat (2 :: uint32) \<le> 784"
    by simp
  have label_fits: "unat (2 :: uint32) + 8 \<le> length two_label_file"
    by (simp add: two_label_file_def)
  obtain dataset out where
    run: "read_dataset_direct LittleEndian mnist_fs (\<lambda>b. b :: byte) (\<lambda>b. b :: byte) 1 0 = Some (dataset, out)"
    and agree: "\<forall>calls. sizes_agree (resize_calls calls dataset)"
    using assembled_dataset_sizes_agree [where fs = mnist_fs and host = LittleEndian
        and pixel_cast = "\<lambda>b. b :: byte" and label_cast = "\<lambda>b. b :: byte"
        and training_limit = 1 and test_limit = 0,
        OF files(1) synthetic_image_headers image_fits geometry
           files(2) two_label_headers label_fits
           files(3) synthetic_image_headers image_fits geometry
           files(4) two_label_headers label_fits]
    by blast
  from agree have "sizes_agree (resize_calls [] dataset)"
    and "sizes_agree (resize_calls [Resize_training 5, Resize_test 1] dataset)"
    by blast+
  with run show ?thesis by auto
qed

text \<open>
  Four well-formed files, one image of 1 row and 785 columns and one label in each split:
  the assembler writes the pixel of index 784 into an image of 784 pixels, a run without
  defined behaviour, and no dataset is returned.
\<close>

theorem wide_images_overrun_assembler_counterexample:
  "wide_fs ''mnist/train-images-idx3-ubyte'' = Some wide_image_file
   \<and> wide_fs ''mnist/t10k-images-idx3-ubyte'' = Some wide_image_file
   \<and> read_header LittleEndian wide_image_file 0 = Some 0x803
   \<and> read_header LittleEndian wide_image_file 1 = Some 1
   \<and> read_header LittleEndian wide_image_file 2 = Some 1
   \<and> read_header LittleEndian wide_image_file 3 = Some 785
   \<and> unat (1 :: uint32) * unat (1 :: uint32) * unat (785 :: uint32) + 16 \<le> length wide_image_file
   \<and> wide_fs ''mnist/train-labels-idx1-ubyte'' = Some one_label_file
   \<and> wide_fs ''mnist/t10k-labels-idx1-ubyte'' = Some one_label_file
   \<and> read_header LittleEndian one_label_file 0 = Some 0x801
   \<and> read_header LittleEndian one_label_file 1 = Some 1
   \<and> unat (1 :: uint32) + 8 \<le> length one_label_file
   \<and> read_dataset_direct LittleEndian wide_fs (\<lambda>b. b :: byte) (\<lambda>b. b :: byte) 0 0 = None"
proof -
  have files:
    "wide_fs ''mnist/train-images-idx3-ubyte'' = Some wide_image_file"
    "wide_fs ''mnist/t10k-images-idx3-ubyte'' = Some wide_image_file"
    "wide_fs ''mnist/train-labels-idx1-ubyte'' = Some one_label_file"
    "wide_fs ''mnist/t10k-labels-idx1-ubyte'' = Some one_label_file"
    by (simp_all add: wide_fs_def)
  have len: "length wide_image_file = 801"
    by (simp add: wide_image_file_def)
  have fits: "unat (1 :: uint32) * unat (1 :: uint32) * unat (785 :: uint32) + 16 \<le> length wide_image_file"
    by (simp add: len)
  have label_fits: "unat (1 :: uint32) + 8 \<le> length one_label_file"
    by (simp add: one_label_file_def)
  have check: "unat (1 * 1 * 785 + 16 :: uint32) \<le> length wide_image_file"
    by (simp add: len)
  have inner: "copy_pixels (\<lambda>b. b :: byte) wide_image_file (unat (1 * 785 :: uint32)) 0 0
      ([] @ [(\<lambda>_. replicate (1 * 28 * 28) 0) ()], 16) = None"
    by (rule copy_pixels_overrun) simp_all
  have "read_images (\<lambda>b. b :: byte) (\<lambda>_. replicate (1 * 28 * 28) 0) wide_image_file
      (if 0 < (0 :: nat) then min (unat (1 :: uint32)) 0 else unat (1 :: uint32)) (unat (1 * 785 :: uint32)) 0 ([], 16) = None"
    by (subst read_images.simps) (simp only: inner, simp)
  then have "read_mnist_image_file LittleEndian wide_fs (\<lambda>b. b :: byte) [] ''mnist/train-images-idx3-ubyte'' 0
      (\<lambda>_. replicate (1 * 28 * 28) 0) = None"
    by (simp add: image_checks_pass [where fs = wide_fs and path = "''mnist/train-images-idx3-ubyte''",
          OF files(1) wide_image_headers check])
  then have run: "read_dataset_direct LittleEndian wide_fs (\<lambda>b. b :: byte) (\<lambda>b. b :: byte) 0 0 = None"
    unfolding read_dataset_direct_def read_training_images_def by simp
  show ?thesis
    using files wide_image_headers fits one_label_headers label_fits run by blast
qed

subsection \<open>C8: the end-to-end example\<close>

text \<open>
  C8 says that decoding the synthetic image file with header \<open>(0x803, 2, 2, 2)\<close> and
  payload \<open>1, 2, 3, 4, 5, 6, 7, 8\<close> with no limit yields exactly the two images
  \<open>[1, 2, 3, 4]\<close> and \<open>[5, 6, 7, 8]\<close>, and that decoding the synthetic label file with
  header \<open>(0x801, 3)\<close> and payload \<open>7, 2, 9\<close> yields exactly the labels
  \<open>[7, 2, 9]\<close>. What \<^verbatim>\<open>read_mnist_image_file\<close> yields depends on the functor, on
  the container it is given and on the host. As amended: on a little-endian host,
  decoding the synthetic image file with no limit into an empty container, with a functor
  that creates images of 4 elements, yields exactly the two images \<open>[1, 2, 3, 4]\<close> and
  \<open>[5, 6, 7, 8]\<close> in that order; and decoding the synthetic label file with no limit
  yields exactly the labels \<open>[7, 2, 9]\<close> in that order.
\<close>

theorem synthetic_files_decode:
  assumes "fs image_path = Some synthetic_image_file"
    and "length (func ()) = 4"
    and "fs label_path = Some synthetic_label_file"
  shows "read_mnist_image_file LittleEndian fs pixel_cast [] image_path 0 func
           = Some ([map pixel_cast [1, 2, 3, 4], map pixel_cast [5, 6, 7, 8]], [])
       \<and> read_mnist_label_file LittleEndian fs label_cast labels label_path 0
           = Some (map label_cast [7, 2, 9], [])"
proof -
  have fits: "unat (3 :: uint32) + 8 \<le> length synthetic_label_file"
    by (simp add: synthetic_label_file_def)
  have "read_mnist_image_file LittleEndian fs pixel_cast [] image_path 0 func
      = Some ([map pixel_cast [1, 2, 3, 4], map pixel_cast [5, 6, 7, 8]], [])"
    using assms(2)
    by (simp add: synthetic_image_decode [where fs = fs, OF assms(1)] upt_2 synthetic_pixels)
  moreover have "read_mnist_label_file LittleEndian fs label_cast labels label_path 0
      = Some (map label_cast [7, 2, 9], [])"
    using label_decode [where fs = fs and path = label_path and cast = label_cast and labels = labels
        and limit = 0, OF assms(3) synthetic_label_headers fits]
    by (simp add: synthetic_labels)
  ultimately show ?thesis by simp
qed

text \<open>The theorem with \<^verbatim>\<open>uint8_t\<close> pixels and labels and a functor of four zero pixels.\<close>

theorem synthetic_files_decode_witness:
  "read_mnist_image_file LittleEndian synthetic_fs (\<lambda>b. b) [] ''images'' 0 (\<lambda>u. replicate 4 0)
       = Some ([[1, 2, 3, 4], [5, 6, 7, 8]], [])
   \<and> read_mnist_label_file LittleEndian synthetic_fs (\<lambda>b. b) [] ''labels'' 0 = Some ([7, 2, 9], [])"
  using synthetic_files_decode [where fs = synthetic_fs and image_path = "''images''"
      and label_path = "''labels''" and func = "\<lambda>u. replicate 4 (0 :: byte)"
      and pixel_cast = "\<lambda>b. b" and label_cast = "\<lambda>b. b" and labels = "[]"]
  by (simp add: synthetic_fs_def)

text \<open>
  The same image file with no limit: read with the functor of \<^verbatim>\<open>read_dataset_direct\<close>
  it yields two images of 784 elements; read on a big-endian host it is rejected for its
  magic number; read into a container that already holds an image it yields three images,
  the first of them overwritten.
\<close>

theorem library_functor_or_big_endian_host_counterexample:
  "read_training_images LittleEndian (\<lambda>p. Some synthetic_image_file) (\<lambda>b. b) 0
       (\<lambda>u. replicate (1 * 28 * 28) 0)
     = Some ([[1, 2, 3, 4] @ replicate 780 0, [5, 6, 7, 8] @ replicate 780 0], [])
   \<and> [[1, 2, 3, 4] @ replicate 780 0, [5, 6, 7, 8] @ replicate 780 0] \<noteq> [[1, 2, 3, 4], [5, 6, 7, 8 :: byte]]
   \<and> read_mnist_image_file BigEndian (\<lambda>p. Some synthetic_image_file) (\<lambda>b. b) [] ''images'' 0
       (\<lambda>u. replicate 4 (0 :: byte)) = Some ([], [invalid_magic])
   \<and> read_mnist_image_file LittleEndian (\<lambda>p. Some synthetic_image_file) (\<lambda>b. b) [[9, 9, 9, 9]] ''images'' 0
       (\<lambda>u. replicate 4 (0 :: byte)) \<noteq> Some ([[1, 2, 3, 4], [5, 6, 7, 8]], [])"
proof -
  have lib: "read_training_images LittleEndian (\<lambda>p. Some synthetic_image_file) (\<lambda>b. b) 0
       (\<lambda>u. replicate (1 * 28 * 28) 0)
     = Some ([[1, 2, 3, 4] @ replicate 780 0, [5, 6, 7, 8 :: byte] @ replicate 780 0], [])"
    unfolding read_training_images_def
    by (simp add: synthetic_image_decode [where fs = "\<lambda>p. Some synthetic_image_file"] upt_2 synthetic_pixels)
  have differ: "[[1, 2, 3, 4] @ replicate 780 0, [5, 6, 7, 8] @ replicate 780 0] \<noteq> [[1, 2, 3, 4], [5, 6, 7, 8 :: byte]]"
    by simp
  have big: "read_mnist_image_file BigEndian (\<lambda>p. Some synthetic_image_file) (\<lambda>b. b) [] ''images'' 0
       (\<lambda>u. replicate 4 (0 :: byte)) = Some ([], [invalid_magic])"
    using image_magic_fails [where fs = "\<lambda>p. Some synthetic_image_file" and path = "''images''",
        OF refl synthetic_image_big_endian_magic]
    by simp
  have nonempty: "read_mnist_image_file LittleEndian (\<lambda>p. Some synthetic_image_file) (\<lambda>b. b) [[9, 9, 9, 9]] ''images'' 0
       (\<lambda>u. replicate 4 (0 :: byte)) \<noteq> Some ([[1, 2, 3, 4], [5, 6, 7, 8]], [])"
  proof -
    have "read_mnist_image_file LittleEndian (\<lambda>p. Some synthetic_image_file) (\<lambda>b. b) [[9, 9, 9, 9]] ''images'' 0
       (\<lambda>u. replicate 4 (0 :: byte)) = Some ([[1, 2, 3, 4], [5, 6, 7, 8], [0, 0, 0, 0]], [])"
      by code_simp
    then show ?thesis by simp
  qed
  show ?thesis using lib differ big nonempty by blast
qed

subsection \<open>C9: how a failure reaches the caller\<close>

text \<open>
  C9 says that a decoder reports a file-open failure, a magic-number mismatch or a failed
  size check to its caller as an explicit error result, distinguishable from a successful
  decode that happens to be empty. The decoders return \<^verbatim>\<open>void\<close>: what the caller
  gets back is its container. As amended: on each of the three failures the decoder
  prints one diagnostic line to the standard output, a different line for each kind of
  failure, and returns normally with the container as it was on entry; the call returns
  nothing else.
\<close>

theorem failures_are_printed:
  "(fs path = None \<longrightarrow>
      read_mnist_image_file host fs pixel_cast images path limit func = Some (images, [error_opening])
      \<and> read_mnist_label_file host fs label_cast labels path limit = Some (labels, [error_opening]))
   \<and> (fs path = Some buffer \<and> read_header host buffer 0 = Some magic \<and> magic \<noteq> 0x803 \<longrightarrow>
      read_mnist_image_file host fs pixel_cast images path limit func = Some (images, [invalid_magic]))
   \<and> (fs path = Some buffer \<and> read_header host buffer 0 = Some magic \<and> magic \<noteq> 0x801 \<longrightarrow>
      read_mnist_label_file host fs label_cast labels path limit = Some (labels, [invalid_magic]))
   \<and> (fs path = Some buffer \<and> read_header host buffer 0 = Some 0x803
        \<and> read_header host buffer 1 = Some count \<and> read_header host buffer 2 = Some rows
        \<and> read_header host buffer 3 = Some columns
        \<and> length buffer < unat (count * rows * columns + 16) \<longrightarrow>
      read_mnist_image_file host fs pixel_cast images path limit func = Some (images, [not_large_enough]))
   \<and> (fs path = Some buffer \<and> read_header host buffer 0 = Some 0x801
        \<and> read_header host buffer 1 = Some count \<and> length buffer < unat (count + 8) \<longrightarrow>
      read_mnist_label_file host fs label_cast labels path limit = Some (labels, [not_large_enough]))
   \<and> distinct [error_opening, invalid_magic, not_large_enough]"
proof -
  have "distinct [error_opening, invalid_magic, not_large_enough]"
    by (simp add: error_opening_def invalid_magic_def not_large_enough_def)
  then show ?thesis
    using image_open_fails [of fs path host pixel_cast images limit func]
      label_open_fails [of fs path host label_cast labels limit]
      image_magic_fails [of fs path buffer host magic pixel_cast images limit func]
      label_magic_fails [of fs path buffer host magic label_cast labels limit]
      image_size_fails [of fs path buffer host count rows columns pixel_cast images limit func]
      label_size_fails [of fs path buffer host count label_cast labels limit]
    by blast
qed

text \<open>
  Each of the three failures, for each decoder: no file, a file of the other kind, a file
  one byte short.
\<close>

theorem failures_are_printed_witness:
  "read_mnist_image_file LittleEndian (\<lambda>p. None) (\<lambda>b. b) [[9]] ''mnist/train-images-idx3-ubyte'' 0
       (\<lambda>u. replicate 4 (0 :: byte)) = Some ([[9]], [error_opening])
   \<and> read_mnist_label_file LittleEndian (\<lambda>p. None) (\<lambda>b. b) [9 :: byte] ''mnist/train-images-idx3-ubyte'' 0
       = Some ([9], [error_opening])
   \<and> read_mnist_image_file LittleEndian (\<lambda>p. Some synthetic_label_file) (\<lambda>b. b) [[9]] ''file'' 0
       (\<lambda>u. replicate 4 (0 :: byte)) = Some ([[9]], [invalid_magic])
   \<and> read_mnist_label_file LittleEndian (\<lambda>p. Some synthetic_image_file) (\<lambda>b. b) [9 :: byte] ''file'' 0
       = Some ([9], [invalid_magic])
   \<and> read_mnist_image_file LittleEndian (\<lambda>p. Some truncated_image_file) (\<lambda>b. b) [[9]] ''file'' 0
       (\<lambda>u. replicate 4 (0 :: byte)) = Some ([[9]], [not_large_enough])
   \<and> read_mnist_label_file LittleEndian (\<lambda>p. Some truncated_label_file) (\<lambda>b. b) [9 :: byte] ''file'' 0
       = Some ([9], [not_large_enough])"
  using
    failures_are_printed [where fs = "\<lambda>p. None" and path = "''mnist/train-images-idx3-ubyte''"
      and host = LittleEndian and pixel_cast = "\<lambda>b. b :: byte" and label_cast = "\<lambda>b. b :: byte"
      and images = "[[9]]" and labels = "[9]" and limit = 0 and func = "\<lambda>u. replicate 4 0"]
    failures_are_printed [where fs = "\<lambda>p. Some synthetic_label_file" and path = "''file''"
      and buffer = synthetic_label_file and magic = "0x801"
      and host = LittleEndian and pixel_cast = "\<lambda>b. b :: byte" and label_cast = "\<lambda>b. b :: byte"
      and images = "[[9]]" and labels = "[9]" and limit = 0 and func = "\<lambda>u. replicate 4 0"]
    failures_are_printed [where fs = "\<lambda>p. Some synthetic_image_file" and path = "''file''"
      and buffer = synthetic_image_file and magic = "0x803"
      and host = LittleEndian and pixel_cast = "\<lambda>b. b :: byte" and label_cast = "\<lambda>b. b :: byte"
      and images = "[[9]]" and labels = "[9]" and limit = 0 and func = "\<lambda>u. replicate 4 0"]
    failures_are_printed [where fs = "\<lambda>p. Some truncated_image_file" and path = "''file''"
      and buffer = truncated_image_file and count = 2 and rows = 2 and columns = 2
      and host = LittleEndian and pixel_cast = "\<lambda>b. b :: byte" and label_cast = "\<lambda>b. b :: byte"
      and images = "[[9]]" and labels = "[9]" and limit = 0 and func = "\<lambda>u. replicate 4 0"]
    failures_are_printed [where fs = "\<lambda>p. Some truncated_label_file" and path = "''file''"
      and buffer = truncated_label_file and count = 3
      and host = LittleEndian and pixel_cast = "\<lambda>b. b :: byte" and label_cast = "\<lambda>b. b :: byte"
      and images = "[[9]]" and labels = "[9]" and limit = 0 and func = "\<lambda>u. replicate 4 0"]
    synthetic_label_headers synthetic_image_headers truncated_image_headers truncated_label_headers
    truncated_sizes
  by simp

text \<open>
  Called with an empty container, the image decoder hands the same container back for a
  file that cannot be opened and for a well-formed file that declares no image; only the
  printed lines differ.
\<close>

theorem failure_returns_what_empty_file_returns_counterexample:
  "read_mnist_image_file LittleEndian (\<lambda>p. None) (\<lambda>b. b) [] ''mnist/train-images-idx3-ubyte'' 0
       (\<lambda>u. replicate 784 (0 :: byte)) = Some ([], [error_opening])
   \<and> read_mnist_image_file LittleEndian (\<lambda>p. Some empty_image_file) (\<lambda>b. b) []
       ''mnist/train-images-idx3-ubyte'' 0 (\<lambda>u. replicate 784 (0 :: byte)) = Some ([], [])
   \<and> map_option fst (read_mnist_image_file LittleEndian (\<lambda>p. None) (\<lambda>b. b) []
         ''mnist/train-images-idx3-ubyte'' 0 (\<lambda>u. replicate 784 (0 :: byte)))
     = map_option fst (read_mnist_image_file LittleEndian (\<lambda>p. Some empty_image_file) (\<lambda>b. b) []
         ''mnist/train-images-idx3-ubyte'' 0 (\<lambda>u. replicate 784 (0 :: byte)))"
proof -
  have fits: "unat (0 :: uint32) * unat (28 :: uint32) * unat (28 :: uint32) + 16 \<le> length empty_image_file"
    by (simp add: empty_image_file_def)
  have func: "unat (28 * 28 :: uint32) \<le> length ((\<lambda>u. replicate 784 (0 :: byte)) ())"
    by simp
  have missing: "read_mnist_image_file LittleEndian (\<lambda>p. None) (\<lambda>b. b) [] ''mnist/train-images-idx3-ubyte'' 0
       (\<lambda>u. replicate 784 (0 :: byte)) = Some ([], [error_opening])"
    by (simp add: image_open_fails)
  have empty: "read_mnist_image_file LittleEndian (\<lambda>p. Some empty_image_file) (\<lambda>b. b) []
       ''mnist/train-images-idx3-ubyte'' 0 (\<lambda>u. replicate 784 (0 :: byte)) = Some ([], [])"
    using image_decode [where fs = "\<lambda>p. Some empty_image_file" and path = "''mnist/train-images-idx3-ubyte''"
        and func = "\<lambda>u. replicate 784 (0 :: byte)" and cast = "\<lambda>b. b" and limit = 0,
        OF refl empty_image_headers fits func]
    by simp
  show ?thesis by (simp only: missing empty) simp
qed

subsection \<open>C10: the container on a failure path\<close>

text \<open>
  C10: on every failure path of \<^verbatim>\<open>read_mnist_image_file\<close> and
  \<^verbatim>\<open>read_mnist_label_file\<close> (the file does not open, the magic number mismatches, the
  size check fails) the function returns with the caller's container exactly as it was
  on entry; a call that returns with a different container has opened the file, found
  the magic number and passed the size check.
\<close>

theorem failure_paths_keep_container:
  "(fs path = None \<longrightarrow>
      map_option fst (read_mnist_image_file host fs pixel_cast images path limit func) = Some images
      \<and> map_option fst (read_mnist_label_file host fs label_cast labels path limit) = Some labels)
   \<and> (fs path = Some buffer \<and> read_header host buffer 0 = Some magic \<and> magic \<noteq> 0x803 \<longrightarrow>
      map_option fst (read_mnist_image_file host fs pixel_cast images path limit func) = Some images)
   \<and> (fs path = Some buffer \<and> read_header host buffer 0 = Some magic \<and> magic \<noteq> 0x801 \<longrightarrow>
      map_option fst (read_mnist_label_file host fs label_cast labels path limit) = Some labels)
   \<and> (fs path = Some buffer \<and> read_header host buffer 0 = Some 0x803
        \<and> read_header host buffer 1 = Some count \<and> read_header host buffer 2 = Some rows
        \<and> read_header host buffer 3 = Some columns
        \<and> length buffer < unat (count * rows * columns + 16) \<longrightarrow>
      map_option fst (read_mnist_image_file host fs pixel_cast images path limit func) = Some images)
   \<and> (fs path = Some buffer \<and> read_header host buffer 0 = Some 0x801
        \<and> read_header host buffer 1 = Some count \<and> length buffer < unat (count + 8) \<longrightarrow>
      map_option fst (read_mnist_label_file host fs label_cast labels path limit) = Some labels)
   \<and> (read_mnist_image_file host fs pixel_cast images path limit func = Some (images', out)
        \<and> images' \<noteq> images \<longrightarrow>
      (\<exists>b c r k. fs path = Some b \<and> read_header host b 0 = Some 0x803
         \<and> read_header host b 1 = Some c \<and> read_header host b 2 = Some r
         \<and> read_header host b 3 = Some k \<and> unat (c * r * k + 16) \<le> length b))
   \<and> (read_mnist_label_file host fs label_cast labels path limit = Some (labels', out')
        \<and> labels' \<noteq> labels \<longrightarrow>
      (\<exists>b c. fs path = Some b \<and> read_header host b 0 = Some 0x801
         \<and> read_header host b 1 = Some c \<and> unat (c + 8) \<le> length b))"
proof -
  have open_fails: "fs path = None \<longrightarrow>
      map_option fst (read_mnist_image_file host fs pixel_cast images path limit func) = Some images
      \<and> map_option fst (read_mnist_label_file host fs label_cast labels path limit) = Some labels"
    by (simp add: image_open_fails label_open_fails)
  have image_magic: "fs path = Some buffer \<and> read_header host buffer 0 = Some magic \<and> magic \<noteq> 0x803 \<longrightarrow>
      map_option fst (read_mnist_image_file host fs pixel_cast images path limit func) = Some images"
    using image_magic_fails [of fs path buffer host magic pixel_cast images limit func] by auto
  have label_magic: "fs path = Some buffer \<and> read_header host buffer 0 = Some magic \<and> magic \<noteq> 0x801 \<longrightarrow>
      map_option fst (read_mnist_label_file host fs label_cast labels path limit) = Some labels"
    using label_magic_fails [of fs path buffer host magic label_cast labels limit] by auto
  have image_size: "fs path = Some buffer \<and> read_header host buffer 0 = Some 0x803
        \<and> read_header host buffer 1 = Some count \<and> read_header host buffer 2 = Some rows
        \<and> read_header host buffer 3 = Some columns
        \<and> length buffer < unat (count * rows * columns + 16) \<longrightarrow>
      map_option fst (read_mnist_image_file host fs pixel_cast images path limit func) = Some images"
    using image_size_fails [of fs path buffer host count rows columns pixel_cast images limit func] by auto
  have label_size: "fs path = Some buffer \<and> read_header host buffer 0 = Some 0x801
        \<and> read_header host buffer 1 = Some count \<and> length buffer < unat (count + 8) \<longrightarrow>
      map_option fst (read_mnist_label_file host fs label_cast labels path limit) = Some labels"
    using label_size_fails [of fs path buffer host count label_cast labels limit] by auto
  show ?thesis
    using open_fails image_magic label_magic image_size label_size
      image_changed_after_checks [of host fs pixel_cast images path limit func images' out]
      label_changed_after_checks [of host fs label_cast labels path limit labels' out']
    by blast
qed

text \<open>
  The three failure paths of each decoder on a non-empty container, and the checks passed
  by the two synthetic files, whose decoding changes the container.
\<close>

theorem failure_paths_keep_container_witness:
  "map_option fst (read_mnist_image_file LittleEndian (\<lambda>p. None) (\<lambda>b. b) [[9]] ''file'' 0
       (\<lambda>u. replicate 4 (0 :: byte))) = Some [[9]]
   \<and> map_option fst (read_mnist_label_file LittleEndian (\<lambda>p. None) (\<lambda>b. b) [9 :: byte] ''file'' 0) = Some [9]
   \<and> map_option fst (read_mnist_image_file LittleEndian (\<lambda>p. Some synthetic_label_file) (\<lambda>b. b) [[9]] ''file'' 0
       (\<lambda>u. replicate 4 (0 :: byte))) = Some [[9]]
   \<and> map_option fst (read_mnist_label_file LittleEndian (\<lambda>p. Some synthetic_image_file) (\<lambda>b. b) [9 :: byte]
       ''file'' 0) = Some [9]
   \<and> map_option fst (read_mnist_image_file LittleEndian (\<lambda>p. Some truncated_image_file) (\<lambda>b. b) [[9]] ''file'' 0
       (\<lambda>u. replicate 4 (0 :: byte))) = Some [[9]]
   \<and> map_option fst (read_mnist_label_file LittleEndian (\<lambda>p. Some truncated_label_file) (\<lambda>b. b) [9 :: byte]
       ''file'' 0) = Some [9]
   \<and> (\<exists>b c r k. (\<lambda>p. Some synthetic_image_file) ''file'' = Some b
         \<and> read_header LittleEndian b 0 = Some 0x803
         \<and> read_header LittleEndian b 1 = Some c \<and> read_header LittleEndian b 2 = Some r
         \<and> read_header LittleEndian b 3 = Some k \<and> unat (c * r * k + 16) \<le> length b)
   \<and> (\<exists>b c. (\<lambda>p. Some synthetic_label_file) ''file'' = Some b
         \<and> read_header LittleEndian b 0 = Some 0x801
         \<and> read_header LittleEndian b 1 = Some c \<and> unat (c + 8) \<le> length b)"
proof -
  have image_run: "read_mnist_image_file LittleEndian (\<lambda>p. Some synthetic_image_file) (\<lambda>b. b) [] ''file'' 0
      (\<lambda>u. replicate 4 (0 :: byte)) = Some ([[1, 2, 3, 4], [5, 6, 7, 8]], [])"
    by (simp add: synthetic_image_decode [where fs = "\<lambda>p. Some synthetic_image_file"] upt_2 synthetic_pixels)
  have label_fits: "unat (3 :: uint32) + 8 \<le> length synthetic_label_file"
    by (simp add: synthetic_label_file_def)
  have label_run: "read_mnist_label_file LittleEndian (\<lambda>p. Some synthetic_label_file) (\<lambda>b. b) [] ''file'' 0
      = Some ([7, 2, 9 :: byte], [])"
    using label_decode [where fs = "\<lambda>p. Some synthetic_label_file" and path = "''file''"
        and cast = "\<lambda>b. b" and labels = "[]" and limit = 0, OF refl synthetic_label_headers label_fits]
    by (simp add: synthetic_labels)
  show ?thesis
    using
      failure_paths_keep_container [where fs = "\<lambda>p. None" and path = "''file''"
        and host = LittleEndian and pixel_cast = "\<lambda>b. b :: byte" and label_cast = "\<lambda>b. b :: byte"
        and images = "[[9]]" and labels = "[9]" and limit = 0 and func = "\<lambda>u. replicate 4 0"]
      failure_paths_keep_container [where fs = "\<lambda>p. Some synthetic_label_file" and path = "''file''"
        and buffer = synthetic_label_file and magic = "0x801"
        and host = LittleEndian and pixel_cast = "\<lambda>b. b :: byte" and label_cast = "\<lambda>b. b :: byte"
        and images = "[[9]]" and labels = "[]" and limit = 0 and func = "\<lambda>u. replicate 4 0"
        and labels' = "[7, 2, 9]" and out' = "[]"]
      failure_paths_keep_container [where fs = "\<lambda>p. Some synthetic_image_file" and path = "''file''"
        and buffer = synthetic_image_file and magic = "0x803"
        and host = LittleEndian and pixel_cast = "\<lambda>b. b :: byte" and label_cast = "\<lambda>b. b :: byte"
        and images = "[]" and labels = "[9]" and limit = 0 and func = "\<lambda>u. replicate 4 0"
        and images' = "[[1, 2, 3, 4], [5, 6, 7, 8]]" and out = "[]"]
      failure_paths_keep_container [where fs = "\<lambda>p. Some truncated_image_file" and path = "''file''"
        and buffer = truncated_image_file and count = 2 and rows = 2 and columns = 2
        and host = LittleEndian and pixel_cast = "\<lambda>b. b :: byte" and label_cast = "\<lambda>b. b :: byte"
        and images = "[[9]]" and labels = "[9]" and limit = 0 and func = "\<lambda>u. replicate 4 0"]
      failure_paths_keep_container [where fs = "\<lambda>p. Some truncated_label_file" and path = "''file''"
        and buffer = truncated_label_file and count = 3
        and host = LittleEndian and pixel_cast = "\<lambda>b. b :: byte" and label_cast = "\<lambda>b. b :: byte"
        and images = "[[9]]" and labels = "[9]" and limit = 0 and func = "\<lambda>u. replicate 4 0"]
      synthetic_label_headers synthetic_image_headers truncated_image_headers truncated_label_headers
      truncated_sizes image_run label_run
    by simp
qed

end
